theory Spec2Isabelle
  imports Main
begin

section \<open>Data model (models.py)\<close>

text \<open>
  A \<open>datetime\<close> is a point on a discrete clock. The fields of a model class carry the
  initial of the class as a suffix (\<open>status_S\<close> is \<open>Session.status\<close>).
\<close>

type_synonym datetime = nat

datatype SessionStatus = CREATING | RUNNING | STOPPED | ERROR

datatype TunnelStatus = TUNNEL_CREATING | ACTIVE | TUNNEL_STOPPED | TUNNEL_ERROR

record Tunnel =
  id_T :: string
  session_id_T :: string
  port_T :: int
  public_url_T :: string
  created_at_T :: datetime
  status_T :: TunnelStatus
  process_pid_T :: "int option"

record Session =
  id_S :: string
  pty_pid_S :: "int option"
  working_dir_S :: string
  status_S :: SessionStatus
  created_at_S :: datetime
  last_activity_S :: datetime
  tunnels_S :: "Tunnel list"

record LogEntry =
  timestamp_L :: datetime
  session_id_L :: string
  content_L :: string
  log_type_L :: string

text \<open>The exceptions that leave a modelled function.\<close>

datatype error =
    ValueError string
  | PTYSessionError string
  | NamedTunnelError string
  | OSError string
  | QueueFull

text \<open>Python truth of an \<open>Optional[int]\<close>: \<open>None\<close> and \<open>0\<close> are false.\<close>

definition truthy :: "int option \<Rightarrow> bool" where
  "truthy v = (case v of None \<Rightarrow> False | Some n \<Rightarrow> n \<noteq> 0)"

section \<open>Pattern detection (utils/patterns.py)\<close>

text \<open>
  Text is a list of 8-bit characters. On such text \<open>\d\<close> is the ten ASCII digits, \<open>\s\<close> is
  the white space of the first 256 code points, \<open>.\<close> is every character but the line feed,
  and \<open>re.IGNORECASE\<close> folds the ASCII letters.
\<close>

datatype cclass = Digit | Space | Dot | Ch char | ChI char

definition lower :: "char \<Rightarrow> char" where
  "lower c = (let n = of_char c :: nat in if 65 \<le> n \<and> n \<le> 90 then char_of (n + 32) else c)"

fun member_cc :: "cclass \<Rightarrow> char \<Rightarrow> bool" where
  "member_cc Digit c = (let n = of_char c :: nat in 48 \<le> n \<and> n \<le> 57)"
| "member_cc Space c =
     (let n = of_char c :: nat in (9 \<le> n \<and> n \<le> 13) \<or> (28 \<le> n \<and> n \<le> 32) \<or> n = 133 \<or> n = 160)"
| "member_cc Dot c = (c \<noteq> CHR 0x0A)"
| "member_cc (Ch x) c = (c = x)"
| "member_cc (ChI x) c = (lower c = lower x)"

text \<open>
  The fragment of the regular-expression language that \<open>PATTERNS\<close> uses: one character of
  a class, sequence, ordered alternation, the greedy \<open>?\<close>, the greedy \<open>*\<close> and \<open>+\<close> and the
  lazy \<open>*?\<close> of a character class, and numbered capture groups.
\<close>

datatype regex =
    Sym cclass
  | Eps
  | Seq regex regex
  | Alt regex regex
  | Opt regex
  | Star cclass
  | Plus cclass
  | Lazy_star cclass
  | Group nat regex

type_synonym captures = "(nat \<times> string) list"

text \<open>
  A backtracking matcher in continuation-passing style: the continuation is the rest of
  the pattern, and the first alternative whose continuation succeeds wins, which is the
  order in which the \<open>re\<close> module explores a pattern.
\<close>

fun star_greedy :: "cclass \<Rightarrow> string \<Rightarrow> (string \<Rightarrow> 'a option) \<Rightarrow> 'a option" where
  "star_greedy cc [] k = k []"
| "star_greedy cc (x # xs) k =
     (if member_cc cc x
      then (case star_greedy cc xs k of Some r \<Rightarrow> Some r | None \<Rightarrow> k (x # xs))
      else k (x # xs))"

fun star_lazy :: "cclass \<Rightarrow> string \<Rightarrow> (string \<Rightarrow> 'a option) \<Rightarrow> 'a option" where
  "star_lazy cc [] k = k []"
| "star_lazy cc (x # xs) k =
     (case k (x # xs) of
        Some r \<Rightarrow> Some r
      | None \<Rightarrow> if member_cc cc x then star_lazy cc xs k else None)"

fun mt :: "regex \<Rightarrow> string \<Rightarrow> captures \<Rightarrow> (string \<Rightarrow> captures \<Rightarrow> 'a option) \<Rightarrow> 'a option" where
  "mt (Sym cc) s c k =
     (case s of [] \<Rightarrow> None | x # xs \<Rightarrow> if member_cc cc x then k xs c else None)"
| "mt Eps s c k = k s c"
| "mt (Seq a b) s c k = mt a s c (\<lambda>s' c'. mt b s' c' k)"
| "mt (Alt a b) s c k = (case mt a s c k of Some r \<Rightarrow> Some r | None \<Rightarrow> mt b s c k)"
| "mt (Opt a) s c k = (case mt a s c k of Some r \<Rightarrow> Some r | None \<Rightarrow> k s c)"
| "mt (Star cc) s c k = star_greedy cc s (\<lambda>s'. k s' c)"
| "mt (Plus cc) s c k =
     (case s of
        [] \<Rightarrow> None
      | x # xs \<Rightarrow> if member_cc cc x then star_greedy cc xs (\<lambda>s'. k s' c) else None)"
| "mt (Lazy_star cc) s c k = star_lazy cc s (\<lambda>s'. k s' c)"
| "mt (Group n a) s c k =
     mt a s c (\<lambda>s' c'. k s' ((n, take (length s - length s') s) # c'))"

definition lit :: "string \<Rightarrow> regex" where
  "lit s = foldr (\<lambda>c r. Seq (Sym (Ch c)) r) s Eps"

definition lit_i :: "string \<Rightarrow> regex" where
  "lit_i s = foldr (\<lambda>c r. Seq (Sym (ChI c)) r) s Eps"

fun alts :: "regex list \<Rightarrow> regex" where
  "alts [] = Eps"
| "alts [r] = r"
| "alts (r # rs) = Alt r (alts rs)"

fun seqs :: "regex list \<Rightarrow> regex" where
  "seqs [] = Eps"
| "seqs [r] = r"
| "seqs (r # rs) = Seq r (seqs rs)"

text \<open>A match object: \<open>group(0)\<close> and the tuple \<open>groups()\<close>, \<open>None\<close> for a group that took no part.\<close>

record re_match =
  group0 :: string
  groups :: "string option list"

text \<open>A compiled pattern: the expression and the number of its capture groups.\<close>

record pattern =
  rx :: regex
  ngroups :: nat

text \<open>\<open>regex.search(text)\<close>: the first start position, from the left, at which the pattern matches.\<close>

fun search :: "pattern \<Rightarrow> string \<Rightarrow> re_match option" where
  "search p [] =
     (case mt (rx p) [] [] (\<lambda>s' c'. Some (s', c')) of
        Some (s', c') \<Rightarrow> Some \<lparr>group0 = [], groups = map (map_of c') [1..<Suc (ngroups p)]\<rparr>
      | None \<Rightarrow> None)"
| "search p (x # xs) =
     (case mt (rx p) (x # xs) [] (\<lambda>s' c'. Some (s', c')) of
        Some (s', c') \<Rightarrow>
          Some \<lparr>group0 = take (length (x # xs) - length s') (x # xs),
                groups = map (map_of c') [1..<Suc (ngroups p)]\<rparr>
      | None \<Rightarrow> search p xs)"

text \<open>\<open>(?:https?://)?\<close>\<close>

definition http_prefix :: regex where
  "http_prefix = Opt (seqs [lit ''http'', Opt (Sym (Ch CHR ''s'')), lit ''://''])"

definition localhost_server :: pattern where
  "localhost_server = \<lparr>rx = alts
     [seqs [http_prefix, lit ''localhost:'', Group 1 (Plus Digit)],
      seqs [http_prefix, lit ''127.0.0.1:'', Group 2 (Plus Digit)],
      seqs [http_prefix, lit ''0.0.0.0:'', Group 3 (Plus Digit)],
      seqs [http_prefix, Alt (lit ''[::]'') (lit ''[::1]''), lit '':'', Group 4 (Plus Digit)]],
     ngroups = 4\<rparr>"


definition listening_on_port :: pattern where
  "listening_on_port = \<lparr>rx = seqs
     [alts [lit_i ''listening'', lit_i ''running'', lit_i ''started'', lit_i ''serving''],
      Lazy_star Dot,
      alts [lit_i ''port'', lit_i ''on'', lit_i '':''],
      Star Space,
      Group 1 (Plus Digit)],
     ngroups = 1\<rparr>"







record PatternMatch =
  pattern_name :: string
  matched_text :: string
  groups_of :: "string option list"
  line_number :: int


text \<open>\<open>int(group)\<close> of a string of ASCII digits.\<close>

definition py_int :: "string \<Rightarrow> int" where
  "py_int s = foldl (\<lambda>n c. 10 * n + (int (of_char c) - 48)) 0 s"

text \<open>The loop \<open>for group in match.groups(): if group: return int(group)\<close>.\<close>

fun first_nonempty :: "string option list \<Rightarrow> string option" where
  "first_nonempty [] = None"
| "first_nonempty (None # gs) = first_nonempty gs"
| "first_nonempty (Some [] # gs) = first_nonempty gs"
| "first_nonempty (Some (x # xs) # gs) = Some (x # xs)"

text \<open>\<open>match and match.group(1)\<close> for the one-group pattern.\<close>

definition group1_nonempty :: "re_match option \<Rightarrow> string option" where
  "group1_nonempty r =
     (case r of
        None \<Rightarrow> None
      | Some m \<Rightarrow> (case groups m of Some (x # xs) # _ \<Rightarrow> Some (x # xs) | _ \<Rightarrow> None))"

definition extract_port :: "string \<Rightarrow> int option" where
  "extract_port text =
     (case (case search localhost_server text of
              None \<Rightarrow> None
            | Some m \<Rightarrow> first_nonempty (groups m)) of
        Some g \<Rightarrow> Some (py_int g)
      | None \<Rightarrow>
          (case group1_nonempty (search listening_on_port text) of
             Some g \<Rightarrow> Some (py_int g)
           | None \<Rightarrow> None))"

text \<open>Two notions the properties of the scanner are stated with: a pattern without capture
  groups, and a non-empty string of ASCII digits.\<close>

fun groupfree :: "regex \<Rightarrow> bool" where
  "groupfree (Group n a) = False"
| "groupfree (Seq a b) = (groupfree a \<and> groupfree b)"
| "groupfree (Alt a b) = (groupfree a \<and> groupfree b)"
| "groupfree (Opt a) = groupfree a"
| "groupfree r = True"


section \<open>Subscriber queues (asyncio.Queue)\<close>

text \<open>
  What travels through a queue: the base64 text of a chunk of terminal output, the JSON of
  a log message, or the JSON of a tunnel event.
\<close>

datatype payload =
    Pty_base64 string
  | Log_json datetime string string
  | Tunnel_created_json Tunnel

record Queue =
  maxsize :: int
  items :: "payload list"

text \<open>\<open>Queue.full()\<close>: a queue whose \<open>maxsize\<close> is not positive is never full.\<close>

definition full :: "Queue \<Rightarrow> bool" where
  "full q = (if maxsize q \<le> 0 then False else maxsize q \<le> int (length (items q)))"

text \<open>\<open>put_nowait\<close> raises \<open>QueueFull\<close> on a full queue.\<close>

definition put_nowait :: "Queue \<Rightarrow> payload \<Rightarrow> error + Queue" where
  "put_nowait q x = (if full q then Inl QueueFull else Inr (q\<lparr>items := items q @ [x]\<rparr>))"

text \<open>
  \<open>await put\<close> suspends the caller while the queue is full; \<open>None\<close> stands for a caller
  that is left waiting.
\<close>

definition put :: "Queue \<Rightarrow> payload \<Rightarrow> Queue option" where
  "put q x = (if full q then None else Some (q\<lparr>items := items q @ [x]\<rparr>))"

text \<open>
  Queue objects are compared by identity, so subscriber collections hold references
  (numbers) into a store of queues; a reference never dangles.
\<close>

type_synonym queue_store = "nat \<Rightarrow> Queue"

section \<open>Terminal process (utils/pty\_session.py)\<close>

datatype signal = SIG_0 | SIGTERM | SIGKILL | SIGWINCH | SIGHUP

text \<open>The calls to the operating system that the parent process makes, in order.\<close>

datatype os_call =
    Pty_fork "string option"
  | Set_nonblocking int
  | Set_winsize int int int
  | Start_reader_task
  | Cancel_reader_task
  | Os_kill int signal
  | Os_waitpid int
  | Os_close int
  | Os_write int string

text \<open>What \<open>os.kill\<close> does: it returns, or raises one of the errors the callers distinguish.\<close>

datatype kill_result = Kill_ok | ProcessLookupError | PermissionError | Kill_other_error

text \<open>
  What \<open>os.waitpid(pid, 0)\<close> does: it returns once the child has exited, raises
  \<open>ChildProcessError\<close>, or, when the child does not exit, never returns.
\<close>

datatype wait_result = Wait_returns | ChildProcessError | Wait_never_returns

record PTYSession =
  session_id_P :: string
  working_dir_P :: string
  master_fd_P :: "int option"
  pid_P :: "int option"
  running_P :: bool
  reader_task_P :: bool

text \<open>\<open>__init__\<close>; \<open>reader_task_P\<close> says whether \<open>_reader_task\<close> holds a task.\<close>

definition PTYSession_init :: "string \<Rightarrow> string \<Rightarrow> PTYSession" where
  "PTYSession_init sid wd =
     \<lparr>session_id_P = sid, working_dir_P = wd, master_fd_P = None, pid_P = None,
      running_P = False, reader_task_P = False\<rparr>"

text \<open>
  What \<open>pty.fork()\<close> and the set-up after it do in the parent: the fork fails, or it yields a
  child pid and the master descriptor, after which \<open>fcntl\<close> and the window-size \<open>ioctl\<close>
  succeed or one of them raises.
\<close>

datatype fork_result = Fork_fails | Forked int int bool

definition pty_start ::
  "fork_result \<Rightarrow> string option \<Rightarrow> PTYSession \<Rightarrow> (error + unit) \<times> os_call list \<times> PTYSession" where
  "pty_start fr command p =
     (if running_P p then (Inl (PTYSessionError ''Session is already running''), [], p)
      else case fr of
        Fork_fails \<Rightarrow>
          (Inl (PTYSessionError ''Failed to start PTY session''), [Pty_fork command], p)
      | Forked child fd setup_ok \<Rightarrow>
          (let p1 = p\<lparr>pid_P := Some child, master_fd_P := Some fd, running_P := True\<rparr> in
           if setup_ok
           then (Inr (),
                 [Pty_fork command, Set_nonblocking fd, Set_winsize fd 80 24, Start_reader_task],
                 p1\<lparr>reader_task_P := True\<rparr>)
           else (Inl (PTYSessionError ''Failed to start PTY session''),
                 [Pty_fork command, Set_nonblocking fd], p1)))"

text \<open>\<open>write\<close>: \<open>write_ok\<close> says whether \<open>os.write\<close> succeeds.\<close>

definition pty_write ::
  "bool \<Rightarrow> string \<Rightarrow> PTYSession \<Rightarrow> (error + unit) \<times> os_call list" where
  "pty_write write_ok data p =
     (case master_fd_P p of
        None \<Rightarrow> (Inl (PTYSessionError ''Session is not running''), [])
      | Some fd \<Rightarrow>
          if \<not> running_P p then (Inl (PTYSessionError ''Session is not running''), [])
          else if write_ok then (Inr (), [Os_write fd data])
          else (Inl (PTYSessionError ''Failed to write to PTY''), [Os_write fd data]))"

definition pty_send_command ::
  "bool \<Rightarrow> string \<Rightarrow> PTYSession \<Rightarrow> (error + unit) \<times> os_call list" where
  "pty_send_command write_ok command p = pty_write write_ok (command @ [CHR 0x0A]) p"

text \<open>
  \<open>resize\<close>: \<open>struct.pack("HHHH", ...)\<close> raises outside the unsigned 16-bit range, the \<open>ioctl\<close>
  may raise, and of the errors of \<open>os.kill\<close> only \<open>ProcessLookupError\<close> is swallowed.
\<close>

definition pty_resize ::
  "bool \<Rightarrow> kill_result \<Rightarrow> int \<Rightarrow> int \<Rightarrow> PTYSession \<Rightarrow> (error + unit) \<times> os_call list" where
  "pty_resize ioctl_ok winch cols rows p =
     (case master_fd_P p of
        None \<Rightarrow> (Inr (), [])
      | Some fd \<Rightarrow>
          if \<not> running_P p then (Inr (), [])
          else if \<not> (0 \<le> rows \<and> rows < 65536 \<and> 0 \<le> cols \<and> cols < 65536)
          then (Inl (OSError ''struct.error''), [])
          else if \<not> ioctl_ok then (Inl (OSError ''ioctl''), [Set_winsize fd cols rows])
          else (case pid_P p of
                  None \<Rightarrow> (Inr (), [Set_winsize fd cols rows])
                | Some child \<Rightarrow>
                    if child = 0 then (Inr (), [Set_winsize fd cols rows])
                    else if winch = Kill_ok \<or> winch = ProcessLookupError
                    then (Inr (), [Set_winsize fd cols rows, Os_kill child SIGWINCH])
                    else (Inl (OSError ''kill''), [Set_winsize fd cols rows, Os_kill child SIGWINCH])))"

text \<open>The end of \<open>stop\<close>: close the master descriptor; an \<open>OSError\<close> of \<open>os.close\<close> is swallowed.\<close>

definition close_master_fd :: "PTYSession \<Rightarrow> os_call list \<times> PTYSession" where
  "close_master_fd p =
     (case master_fd_P p of
        None \<Rightarrow> ([], p)
      | Some fd \<Rightarrow> ([Os_close fd], p\<lparr>master_fd_P := None\<rparr>))"

text \<open>
  \<open>stop\<close>. The result is \<open>None\<close> when the coroutine never finishes, which happens when
  \<open>os.waitpid(pid, 0)\<close> does not return; it is \<open>Some (Inl e)\<close> when an exception leaves it.
\<close>

definition pty_stop ::
  "kill_result \<Rightarrow> wait_result \<Rightarrow> PTYSession \<Rightarrow> (error + unit) option \<times> os_call list \<times> PTYSession" where
  "pty_stop kr wr p =
     (if \<not> running_P p then (Some (Inr ()), [], p)
      else
        (let p1 = p\<lparr>running_P := False\<rparr>;
             t1 = (if reader_task_P p1 then [Cancel_reader_task] else []);
             (t2, p2) = close_master_fd p1
         in case pid_P p1 of
              None \<Rightarrow> (Some (Inr ()), t1 @ t2, p2)
            | Some child \<Rightarrow>
                if child = 0 then (Some (Inr ()), t1 @ t2, p2)
                else (case kr of
                        Kill_ok \<Rightarrow>
                          (case wr of
                             Wait_returns \<Rightarrow>
                               (Some (Inr ()), t1 @ [Os_kill child SIGTERM, Os_waitpid child] @ t2, p2)
                           | ChildProcessError \<Rightarrow>
                               (Some (Inr ()), t1 @ [Os_kill child SIGTERM, Os_waitpid child] @ t2, p2)
                           | Wait_never_returns \<Rightarrow>
                               (None, t1 @ [Os_kill child SIGTERM, Os_waitpid child], p1))
                      | ProcessLookupError \<Rightarrow>
                          (Some (Inr ()), t1 @ [Os_kill child SIGTERM] @ t2, p2)
                      | PermissionError \<Rightarrow>
                          (Some (Inl (OSError ''PermissionError'')), t1 @ [Os_kill child SIGTERM], p1)
                      | Kill_other_error \<Rightarrow>
                          (Some (Inl (OSError ''kill'')), t1 @ [Os_kill child SIGTERM], p1))))"

text \<open>\<open>is_alive\<close>, with what \<open>os.kill(pid, 0)\<close> answers; any other error of the probe leaves it.\<close>

definition pty_is_alive :: "kill_result \<Rightarrow> PTYSession \<Rightarrow> error + bool" where
  "pty_is_alive probe p =
     (if \<not> running_P p \<or> \<not> truthy (pid_P p) then Inr False
      else case probe of
        Kill_ok \<Rightarrow> Inr True
      | ProcessLookupError \<Rightarrow> Inr False
      | PermissionError \<Rightarrow> Inr False
      | Kill_other_error \<Rightarrow> Inl (OSError ''kill''))"

section \<open>Session manager (core/session\_manager.py)\<close>

text \<open>
  The file at \<open>settings.get_session_metadata_path()\<close> holds the JSON of a session, or text
  that \<open>json.load\<close> or the \<open>Session\<close> constructor rejects. The successful operations on the
  file are recorded in order.
\<close>

datatype file_content = Unparsable | Session_json Session

datatype storage_op = Write_file Session | Unlink_file

text \<open>
  The attributes of the manager (\<open>session\<close>, \<open>pty\<close>, \<open>log_buffer\<close>, \<open>command_count\<close>,
  \<open>_output_subscribers\<close>) and what it acts on: the metadata file, the operating system and
  the store of queue objects.
\<close>

record SessionManager =
  session :: "Session option"
  pty :: "PTYSession option"
  log_buffer :: "LogEntry list"
  command_count :: int
  output_subscribers :: "nat list"
  metadata_file :: "file_content option"
  storage_ops :: "storage_op list"
  os_calls :: "os_call list"
  queues :: queue_store
  next_queue :: nat

definition has_active_session :: "SessionManager \<Rightarrow> bool" where
  "has_active_session m =
     (case session m of
        None \<Rightarrow> False
      | Some s \<Rightarrow> status_S s = RUNNING \<and> pty m \<noteq> None)"

text \<open>\<open>metadata_path.unlink()\<close>; \<open>unlink_ok\<close> says whether it succeeds.\<close>

definition unlink_metadata :: "bool \<Rightarrow> SessionManager \<Rightarrow> SessionManager" where
  "unlink_metadata unlink_ok m =
     (if unlink_ok
      then m\<lparr>metadata_file := None, storage_ops := storage_ops m @ [Unlink_file]\<rparr>
      else m)"

text \<open>
  \<open>_load_session_metadata\<close>. \<open>os_kill pid\<close> is what \<open>os.kill(pid, 0)\<close> does. An unreadable
  file and an unexpected error of the probe end in the outer \<open>except\<close>, which only logs.
\<close>

definition load_session_metadata ::
  "(int \<Rightarrow> kill_result) \<Rightarrow> bool \<Rightarrow> SessionManager \<Rightarrow> SessionManager" where
  "load_session_metadata os_kill unlink_ok m =
     (case metadata_file m of
        None \<Rightarrow> m
      | Some Unparsable \<Rightarrow> m
      | Some (Session_json data) \<Rightarrow>
          (let m1 = m\<lparr>session := Some data\<rparr> in
           case pty_pid_S data of
             None \<Rightarrow> (unlink_metadata unlink_ok m1)\<lparr>session := None\<rparr>
           | Some child \<Rightarrow>
               if child = 0 then (unlink_metadata unlink_ok m1)\<lparr>session := None\<rparr>
               else
                 (let m2 = m1\<lparr>os_calls := os_calls m1 @ [Os_kill child SIG_0]\<rparr> in
                  case os_kill child of
                    Kill_ok \<Rightarrow> m2\<lparr>session := Some (data\<lparr>status_S := RUNNING\<rparr>)\<rparr>
                  | ProcessLookupError \<Rightarrow> (unlink_metadata unlink_ok m2)\<lparr>session := None\<rparr>
                  | PermissionError \<Rightarrow> (unlink_metadata unlink_ok m2)\<lparr>session := None\<rparr>
                  | Kill_other_error \<Rightarrow> m2)))"

text \<open>\<open>__init__\<close>, given what is on disk and in the queue store when the process starts.\<close>

definition SessionManager_init ::
  "(int \<Rightarrow> kill_result) \<Rightarrow> bool \<Rightarrow> file_content option \<Rightarrow> queue_store \<Rightarrow> nat \<Rightarrow> SessionManager" where
  "SessionManager_init os_kill unlink_ok on_disk qs nq =
     load_session_metadata os_kill unlink_ok
       \<lparr>session = None, pty = None, log_buffer = [], command_count = 0,
        output_subscribers = [], metadata_file = on_disk, storage_ops = [], os_calls = [],
        queues = qs, next_queue = nq\<rparr>"

text \<open>
  \<open>_save_session_metadata\<close>: nothing without a session; otherwise the file is opened for
  writing and the session dumped into it. A failure is logged and swallowed: when \<open>open\<close>
  fails the file is as before, when the dump fails the file is left truncated.
\<close>

datatype write_result = Write_ok | Open_fails | Dump_fails

definition save_session_metadata :: "write_result \<Rightarrow> SessionManager \<Rightarrow> SessionManager" where
  "save_session_metadata wr m =
     (case session m of
        None \<Rightarrow> m
      | Some s \<Rightarrow>
          (case wr of
             Write_ok \<Rightarrow> m\<lparr>metadata_file := Some (Session_json s),
                             storage_ops := storage_ops m @ [Write_file s]\<rparr>
           | Open_fails \<Rightarrow> m
           | Dump_fails \<Rightarrow> m\<lparr>metadata_file := Some Unparsable\<rparr>))"

text \<open>
  What the environment answers during \<open>create_session\<close>; the two clock readings are the
  two calls of \<open>datetime.utcnow()\<close>.
\<close>

record create_env =
  now_c :: datetime
  now_later_c :: datetime
  default_working_dir_c :: string
  claude_cli_c :: string
  unlink_ok_c :: bool
  mkdir_ok_c :: bool
  fork_result_c :: fork_result
  write_result_c :: write_result

definition already_running :: error where
  "already_running = ValueError ''A session is already running. Stop it before creating a new one.''"

text \<open>
  \<open>create_session\<close>. Copying templates touches only files below the working directory and
  swallows its errors, so \<open>copy_templates\<close> does not show in the result. \<open>expanduser\<close> is
  left out of the path.
\<close>

definition create_session ::
  "create_env \<Rightarrow> string \<Rightarrow> string option \<Rightarrow> bool \<Rightarrow> bool \<Rightarrow> SessionManager
     \<Rightarrow> (error + Session) \<times> SessionManager" where
  "create_session env sid working_dir auto_start_claude copy_templates m =
     (if has_active_session m then (Inl already_running, m)
      else
        (let m1 = (if session m \<noteq> None \<and> \<not> has_active_session m
                   then (let m0 = m\<lparr>session := None\<rparr> in
                         if metadata_file m0 \<noteq> None then unlink_metadata (unlink_ok_c env) m0
                         else m0)
                   else m);
             work_path = (case working_dir of
                            Some (x # xs) \<Rightarrow> x # xs
                          | _ \<Rightarrow> default_working_dir_c env @ ''/'' @ sid)
         in if \<not> mkdir_ok_c env then (Inl (OSError ''mkdir''), m1)
            else
              (let command = (if auto_start_claude
                              then Some (claude_cli_c env @ '' --dangerously-skip-permissions'')
                              else None);
                   (r, calls, p) = pty_start (fork_result_c env) command (PTYSession_init sid work_path);
                   m2 = m1\<lparr>pty := Some p, os_calls := os_calls m1 @ calls\<rparr>
               in case r of
                    Inl e \<Rightarrow>
                      (Inl (ValueError ''Failed to create session''),
                       (case session m2 of
                          None \<Rightarrow> m2
                        | Some s \<Rightarrow> m2\<lparr>session := Some (s\<lparr>status_S := ERROR\<rparr>)\<rparr>))
                  | Inr _ \<Rightarrow>
                      (let s = \<lparr>id_S = sid, pty_pid_S = pid_P p, working_dir_S = work_path,
                                status_S = RUNNING, created_at_S = now_c env,
                                last_activity_S = now_later_c env, tunnels_S = []\<rparr>;
                           m3 = save_session_metadata (write_result_c env) (m2\<lparr>session := Some s\<rparr>)
                       in (Inr s, m3)))))"

text \<open>What the environment answers during \<open>destroy_session\<close>.\<close>

record destroy_env =
  term_d :: kill_result
  wait_d :: wait_result
  unlink_ok_d :: bool

text \<open>
  \<open>destroy_session\<close>. \<open>None\<close>: the call never returns, because \<open>pty.stop()\<close> does not. An
  exception of \<open>pty.stop()\<close> or of \<open>unlink\<close> is logged and raised again.
\<close>

definition destroy_session ::
  "destroy_env \<Rightarrow> SessionManager \<Rightarrow> (error + bool) option \<times> SessionManager" where
  "destroy_session env m =
     (case session m of
        None \<Rightarrow> (Some (Inl (ValueError ''No session to destroy'')), m)
      | Some s \<Rightarrow>
          (let finish = (\<lambda>m1.
                 let m2 = m1\<lparr>session := Some (s\<lparr>status_S := STOPPED\<rparr>)\<rparr> in
                 if metadata_file m2 \<noteq> None \<and> \<not> unlink_ok_d env
                 then (Some (Inl (OSError ''unlink'')), m2)
                 else
                   (let m3 = (if metadata_file m2 \<noteq> None then unlink_metadata True m2 else m2)
                    in (Some (Inr True),
                        m3\<lparr>session := None, log_buffer := [], command_count := 0,
                           output_subscribers := []\<rparr>)))
           in case pty m of
                None \<Rightarrow> finish m
              | Some p \<Rightarrow>
                  (let (r, calls, p') = pty_stop (term_d env) (wait_d env) p;
                       m1 = m\<lparr>pty := Some p', os_calls := os_calls m @ calls\<rparr>
                   in case r of
                        None \<Rightarrow> (None, m1)
                      | Some (Inl e) \<Rightarrow> (Some (Inl e), m1)
                      | Some (Inr _) \<Rightarrow> finish (m1\<lparr>pty := None\<rparr>))))"

text \<open>What the environment answers during \<open>send_command\<close> and \<open>send_input\<close>.\<close>

record send_env =
  now_s :: datetime
  os_write_ok_s :: bool
  write_result_s :: write_result

definition send_command ::
  "send_env \<Rightarrow> string \<Rightarrow> SessionManager \<Rightarrow> (error + bool) \<times> SessionManager" where
  "send_command env command m =
     (case session m of
        None \<Rightarrow> (Inl (ValueError ''No active session''), m)
      | Some s \<Rightarrow>
          if status_S s \<noteq> RUNNING then (Inl (ValueError ''Session is not running''), m)
          else case pty m of
            None \<Rightarrow> (Inl (ValueError ''PTY not initialized''), m)
          | Some p \<Rightarrow>
              (let (r, calls) = pty_send_command (os_write_ok_s env) command p;
                   m1 = m\<lparr>os_calls := os_calls m @ calls\<rparr>
               in case r of
                    Inl e \<Rightarrow> (Inl (ValueError ''Failed to send command''), m1)
                  | Inr _ \<Rightarrow>
                      (Inr True,
                       save_session_metadata (write_result_s env)
                         (m1\<lparr>session := Some (s\<lparr>last_activity_S := now_s env\<rparr>),
                            command_count := command_count m1 + 1\<rparr>))))"

definition send_input ::
  "send_env \<Rightarrow> string \<Rightarrow> SessionManager \<Rightarrow> (error + bool) \<times> SessionManager" where
  "send_input env data m =
     (case session m of
        None \<Rightarrow> (Inl (ValueError ''No active session''), m)
      | Some s \<Rightarrow>
          (case pty m of
             None \<Rightarrow> (Inl (ValueError ''No active session''), m)
           | Some p \<Rightarrow>
               if status_S s \<noteq> RUNNING then (Inl (ValueError ''Session is not running''), m)
               else
                 (let (r, calls) = pty_write (os_write_ok_s env) data p;
                      m1 = m\<lparr>os_calls := os_calls m @ calls\<rparr>
                  in case r of
                       Inl e \<Rightarrow> (Inl (ValueError ''Failed to send input''), m1)
                     | Inr _ \<Rightarrow>
                         (Inr True, m1\<lparr>session := Some (s\<lparr>last_activity_S := now_s env\<rparr>)\<rparr>))))"

text \<open>\<open>resize_terminal\<close>: every exception of \<open>pty.resize\<close> is logged and swallowed.\<close>

definition resize_terminal ::
  "bool \<Rightarrow> kill_result \<Rightarrow> int \<Rightarrow> int \<Rightarrow> SessionManager \<Rightarrow> SessionManager" where
  "resize_terminal ioctl_ok winch cols rows m =
     (case pty m of
        None \<Rightarrow> m
      | Some p \<Rightarrow> m\<lparr>os_calls := os_calls m @ snd (pty_resize ioctl_ok winch cols rows p)\<rparr>)"

text \<open>\<open>subscribe_output\<close>: a new unbounded queue, appended to the subscriber list.\<close>

definition subscribe_output :: "SessionManager \<Rightarrow> nat \<times> SessionManager" where
  "subscribe_output m =
     (let q = next_queue m
      in (q, m\<lparr>queues := (queues m)(q := \<lparr>maxsize = 0, items = []\<rparr>),
               next_queue := Suc q,
               output_subscribers := output_subscribers m @ [q]\<rparr>))"

text \<open>\<open>unsubscribe_output\<close>: \<open>list.remove\<close> takes out the first occurrence.\<close>

definition unsubscribe_output :: "nat \<Rightarrow> SessionManager \<Rightarrow> SessionManager" where
  "unsubscribe_output q m =
     (if q \<in> set (output_subscribers m)
      then m\<lparr>output_subscribers := remove1 q (output_subscribers m)\<rparr>
      else m)"

text \<open>
  The loop of \<open>_handle_pty_output\<close> over a copy of the subscriber list. \<open>await queue.put\<close>
  raises nothing, so the \<open>except\<close> branch that would remove the queue is not entered; on
  a full queue the producer is left waiting (\<open>None\<close>).
\<close>

fun put_all :: "payload \<Rightarrow> nat list \<Rightarrow> queue_store \<Rightarrow> queue_store option" where
  "put_all x [] qs = Some qs"
| "put_all x (q # rest) qs =
     (case put (qs q) x of
        None \<Rightarrow> None
      | Some q' \<Rightarrow> put_all x rest (qs(q := q')))"

definition handle_pty_output :: "string \<Rightarrow> SessionManager \<Rightarrow> SessionManager option" where
  "handle_pty_output data m =
     (case put_all (Pty_base64 data) (output_subscribers m) (queues m) of
        None \<Rightarrow> None
      | Some qs \<Rightarrow> Some (m\<lparr>queues := qs\<rparr>))"

text \<open>
  The operations on the output subscribers, to speak of every state they can reach: a
  viewer subscribes, a viewer unsubscribes some queue, the terminal produces a chunk.
\<close>

datatype hub_op = Subscribe | Unsubscribe nat | Broadcast string

fun hub_step :: "hub_op \<Rightarrow> SessionManager \<Rightarrow> SessionManager option" where
  "hub_step Subscribe m = Some (snd (subscribe_output m))"
| "hub_step (Unsubscribe q) m = Some (unsubscribe_output q m)"
| "hub_step (Broadcast data) m = handle_pty_output data m"

fun hub_run :: "hub_op list \<Rightarrow> SessionManager \<Rightarrow> SessionManager option" where
  "hub_run [] m = Some m"
| "hub_run (x # xs) m = (case hub_step x m of None \<Rightarrow> None | Some m' \<Rightarrow> hub_run xs m')"

section \<open>Log monitor (core/log\_monitor.py)\<close>

text \<open>
  \<open>_subscribers\<close> is a set of queue objects; it is kept as a list without repetition. The
  loop of \<open>_broadcast_log\<close> touches only the queue it visits, so the order in which the set
  is iterated does not show.
\<close>

record LogMonitor =
  is_monitoring :: bool
  subscribers_LM :: "nat list"
  queues_LM :: queue_store
  next_queue_LM :: nat

text \<open>\<open>subscribe\<close>: a new queue of at most 100 messages.\<close>

definition log_subscribe :: "LogMonitor \<Rightarrow> nat \<times> LogMonitor" where
  "log_subscribe lm =
     (let q = next_queue_LM lm
      in (q, lm\<lparr>queues_LM := (queues_LM lm)(q := \<lparr>maxsize = 100, items = []\<rparr>),
                next_queue_LM := Suc q,
                subscribers_LM := List.insert q (subscribers_LM lm)\<rparr>))"

definition log_unsubscribe :: "nat \<Rightarrow> LogMonitor \<Rightarrow> LogMonitor" where
  "log_unsubscribe q lm = lm\<lparr>subscribers_LM := removeAll q (subscribers_LM lm)\<rparr>"

text \<open>The loop with \<open>put_nowait\<close>: \<open>QueueFull\<close> is logged and the loop goes on.\<close>

fun put_nowait_all :: "payload \<Rightarrow> nat list \<Rightarrow> queue_store \<Rightarrow> queue_store" where
  "put_nowait_all x [] qs = qs"
| "put_nowait_all x (q # rest) qs =
     (case put_nowait (qs q) x of
        Inl e \<Rightarrow> put_nowait_all x rest qs
      | Inr q' \<Rightarrow> put_nowait_all x rest (qs(q := q')))"

definition broadcast_log :: "datetime \<Rightarrow> string \<Rightarrow> string \<Rightarrow> LogMonitor \<Rightarrow> LogMonitor" where
  "broadcast_log now text_content log_type lm =
     (if subscribers_LM lm = [] then lm
      else lm\<lparr>queues_LM :=
             put_nowait_all (Log_json now text_content log_type) (subscribers_LM lm) (queues_LM lm)\<rparr>)"

text \<open>
  To state what a broadcast does: a queue that has received a payload, and the condition
  that every subscribed queue is a distinct, already allocated, unbounded queue.
\<close>

definition delivered :: "payload \<Rightarrow> Queue \<Rightarrow> Queue" where
  "delivered x q = q\<lparr>items := items q @ [x]\<rparr>"

definition hub_inv :: "SessionManager \<Rightarrow> bool" where
  "hub_inv m = (distinct (output_subscribers m) \<and>
     (\<forall>q\<in>set (output_subscribers m). q < next_queue m \<and> maxsize (queues m q) \<le> 0))"

section \<open>Named tunnel manager (core/named\_tunnel\_manager.py)\<close>

text \<open>\<open>str\<close> of an integer, as the f-strings format a port or a timestamp.\<close>

definition digit_char :: "nat \<Rightarrow> char" where
  "digit_char d =
     (if d = 0 then CHR ''0'' else if d = 1 then CHR ''1'' else if d = 2 then CHR ''2''
      else if d = 3 then CHR ''3'' else if d = 4 then CHR ''4'' else if d = 5 then CHR ''5''
      else if d = 6 then CHR ''6'' else if d = 7 then CHR ''7'' else if d = 8 then CHR ''8''
      else CHR ''9'')"

fun str_nat :: "nat \<Rightarrow> string" where
  "str_nat n = (if n < 10 then [digit_char n] else str_nat (n div 10) @ [digit_char (n mod 10)])"

declare str_nat.simps [simp del]

definition str_int :: "int \<Rightarrow> string" where
  "str_int i = (if i < 0 then ''-'' @ str_nat (nat (- i)) else str_nat (nat i))"

text \<open>An ingress rule of the YAML document; the catch-all rule has no hostname.\<close>

record IngressRule =
  hostname_R :: "string option"
  service_R :: string

record tunnel_config =
  tunnel_C :: "string option"
  credentials_file_C :: string
  ingress_C :: "IngressRule list"

text \<open>\<open>list.insert(-1, x)\<close>: before the last element; into an empty list, as its only element.\<close>

definition insert_before_last :: "'a \<Rightarrow> 'a list \<Rightarrow> 'a list" where
  "insert_before_last x xs = (case xs of [] \<Rightarrow> [x] | _ \<Rightarrow> butlast xs @ [x, last xs])"

text \<open>
  The manager: the dictionary \<open>tunnels\<close> from port to tunnel, the pid kept in
  \<open>_tunnel_process\<close>, the document in the file at \<open>_config_path\<close> (\<open>None\<close>: no readable
  document), and the signals sent to the tunnel process.
\<close>

record NamedTunnelManager =
  tunnel_name_N :: string
  tunnel_id_N :: "string option"
  domain_N :: string
  tunnels_N :: "int \<rightharpoonup> Tunnel"
  tunnel_process_N :: "int option"
  config_file_N :: "tunnel_config option"
  signals_N :: "os_call list"

text \<open>What \<open>cloudflare_api.create_cname_for_port\<close> does.\<close>

datatype cname_result = Cname_url string | Cname_none | Cname_raises

text \<open>
  What the environment answers during \<open>add_port_mapping\<close>; the two clock readings are the
  one in the tunnel identifier and the default of \<open>Tunnel.created_at\<close>.
\<close>

record add_env =
  cname_a :: cname_result
  config_write_a :: write_result
  now_a :: datetime
  now_later_a :: datetime
  write_result_a :: write_result

text \<open>
  \<open>_add_ingress_rule\<close>: read the document, insert the rule before the last one, write the
  document back, send \<open>SIGHUP\<close> when a process is recorded (an error of that signal is only
  logged). Reading fails without a document; a write that fails after the file was opened
  leaves no readable document.
\<close>

definition add_ingress_rule ::
  "write_result \<Rightarrow> int \<Rightarrow> NamedTunnelManager \<Rightarrow> (error + unit) \<times> NamedTunnelManager" where
  "add_ingress_rule config_write port n =
     (case config_file_N n of
        None \<Rightarrow> (Inl (OSError ''config''), n)
      | Some config \<Rightarrow>
          (let new_rule = \<lparr>hostname_R = Some (str_int port @ ''.'' @ domain_N n),
                            service_R = ''http://127.0.0.1:'' @ str_int port\<rparr>;
               config' = config\<lparr>ingress_C := insert_before_last new_rule (ingress_C config)\<rparr>
           in case config_write of
                Open_fails \<Rightarrow> (Inl (OSError ''config''), n)
              | Dump_fails \<Rightarrow> (Inl (OSError ''config''), n\<lparr>config_file_N := None\<rparr>)
              | Write_ok \<Rightarrow>
                  (let n1 = n\<lparr>config_file_N := Some config'\<rparr>
                   in (Inr (),
                       case tunnel_process_N n1 of
                         None \<Rightarrow> n1
                       | Some tp \<Rightarrow>
                           if tp = 0 then n1
                           else n1\<lparr>signals_N := signals_N n1 @ [Os_kill tp SIGHUP]\<rparr>))))"

text \<open>
  \<open>add_port_mapping\<close>, on the manager and the session manager it holds. Every exception
  inside the \<open>try\<close> becomes a \<open>NamedTunnelError\<close>.
\<close>

definition add_port_mapping ::
  "add_env \<Rightarrow> int \<Rightarrow> NamedTunnelManager \<times> SessionManager
     \<Rightarrow> (error + Tunnel) \<times> NamedTunnelManager \<times> SessionManager" where
  "add_port_mapping env port nm =
     (let n = fst nm; m = snd nm in
      if \<not> has_active_session m then (Inl (ValueError ''No active session''), n, m)
      else case session m of
        None \<Rightarrow> (Inl (ValueError ''No active session''), n, m)
      | Some s \<Rightarrow>
          (case tunnels_N n port of
             Some existing \<Rightarrow> (Inr existing, n, m)
           | None \<Rightarrow>
               (case cname_a env of
                  Cname_raises \<Rightarrow> (Inl (NamedTunnelError ''Failed to add port mapping''), n, m)
                | res \<Rightarrow>
                    (let fallback = ''https://'' @ str_int port @ ''.'' @ domain_N n;
                         url = (case res of Cname_url (x # xs) \<Rightarrow> x # xs | _ \<Rightarrow> fallback);
                         (r, n1) = add_ingress_rule (config_write_a env) port n
                     in case r of
                          Inl e \<Rightarrow> (Inl (NamedTunnelError ''Failed to add port mapping''), n1, m)
                        | Inr _ \<Rightarrow>
                            (let tunnel =
                                   \<lparr>id_T = ''tun_'' @ str_int port @ ''_'' @ str_nat (now_a env),
                                    session_id_T = id_S s,
                                    port_T = port, public_url_T = url,
                                    created_at_T = now_later_a env, status_T = ACTIVE,
                                    process_pid_T = (if truthy (tunnel_process_N n1)
                                                     then tunnel_process_N n1 else None)\<rparr>;
                                 n2 = n1\<lparr>tunnels_N := (tunnels_N n1)(port \<mapsto> tunnel)\<rparr>;
                                 m1 = m\<lparr>session := Some (s\<lparr>tunnels_S := tunnels_S s @ [tunnel]\<rparr>)\<rparr>
                             in (Inr tunnel, n2, save_session_metadata (write_result_a env) m1))))))"

section \<open>Hybrid tunnel manager (core/hybrid\_tunnel\_manager.py)\<close>

text \<open>
  The facade holds one concrete manager object in \<open>self.tunnel_manager\<close> and the flag
  \<open>self._is_named\<close>. Every method branches on the flag and calls a method of whatever
  object \<open>self.tunnel_manager\<close> currently is. The model records each such call, with
  the class of the receiving object, in a trace.
\<close>

datatype manager_class = NamedTunnelManager | QuickTunnelManager

datatype manager_call =
    Call_initialize
  | Call_add_port_mapping int
  | Call_create_tunnel int "string option"
  | Read_tunnels
  | Call_remove_port_mapping int
  | Call_destroy_tunnel string
  | Call_destroy_all_tunnels
  | Call_get_tunnel string
  | Call_get_tunnels_by_session string
  | Call_get_all_tunnels
  | Call_get_active_tunnels
  | Read_tunnel_process
  | Call_health_check string
  | Call_shutdown

record HybridTunnelManager =
  tunnel_manager :: manager_class
  is_named :: bool
  delegated_calls :: "(manager_class \<times> manager_call) list"


definition delegate :: "manager_call \<Rightarrow> HybridTunnelManager \<Rightarrow> HybridTunnelManager" where
  "delegate c h = h\<lparr>delegated_calls := delegated_calls h @ [(tunnel_manager h, c)]\<rparr>"

text \<open>What \<open>await self.tunnel_manager.initialize()\<close> of the named manager does.\<close>

datatype init_outcome = Init_returns bool | Init_raises

text \<open>\<open>initialize\<close>: returns the flag it reports together with the new state.\<close>

definition hybrid_initialize ::
  "init_outcome \<Rightarrow> HybridTunnelManager \<Rightarrow> bool \<times> HybridTunnelManager" where
  "hybrid_initialize outcome h =
     (if is_named h then
        (let h1 = delegate Call_initialize h in
         case outcome of
           Init_returns success \<Rightarrow>
             (if \<not> success
              then (success, h1\<lparr>tunnel_manager := QuickTunnelManager, is_named := False\<rparr>)
              else (success, h1)) 
         | Init_raises \<Rightarrow>
             (False, h1\<lparr>tunnel_manager := QuickTunnelManager, is_named := False\<rparr>))
      else (True, h))"













definition init_failed :: "init_outcome \<Rightarrow> bool" where
  "init_failed outcome = (case outcome of Init_returns success \<Rightarrow> \<not> success | Init_raises \<Rightarrow> True)"

section \<open>Auto-tunnel orchestrator (core/auto\_tunnel.py)\<close>

text \<open>
  What the orchestrator does at the facade, in order: it calls \<open>create_tunnel\<close> for a port,
  and that call returns a tunnel or raises.
\<close>

datatype facade_event = Create_called int | Create_returned int | Create_raised int

record AutoTunnelOrchestrator =
  detected_ports :: "int set"
  subscribers_A :: "nat list"
  queues_A :: queue_store
  next_queue_A :: nat
  facade_trace :: "facade_event list"

definition AutoTunnelOrchestrator_init :: "queue_store \<Rightarrow> nat \<Rightarrow> AutoTunnelOrchestrator" where
  "AutoTunnelOrchestrator_init qs nq =
     \<lparr>detected_ports = {}, subscribers_A = [], queues_A = qs, next_queue_A = nq,
      facade_trace = []\<rparr>"

text \<open>\<open>_broadcast_tunnel_event\<close>: \<open>put_nowait\<close> on every subscribed queue, a full queue is skipped.\<close>

definition broadcast_tunnel_event :: "Tunnel \<Rightarrow> AutoTunnelOrchestrator \<Rightarrow> AutoTunnelOrchestrator" where
  "broadcast_tunnel_event tunnel a =
     (if subscribers_A a = [] then a
      else a\<lparr>queues_A := put_nowait_all (Tunnel_created_json tunnel) (subscribers_A a) (queues_A a)\<rparr>)"

text \<open>What \<open>await self.tunnel_manager.create_tunnel(port)\<close> does.\<close>

datatype create_outcome = Create_returns Tunnel | Create_raises

text \<open>
  \<open>_on_localhost_detected\<close> has one suspension point, the \<open>await\<close> of \<open>create_tunnel\<close>. Up to
  it: extract the port, give up on no port (\<open>None\<close> or \<open>0\<close>) and on a port already
  detected, otherwise call the facade.
\<close>

definition localhost_detected_begin ::
  "PatternMatch \<Rightarrow> AutoTunnelOrchestrator \<Rightarrow> int option \<times> AutoTunnelOrchestrator" where
  "localhost_detected_begin match a =
     (case extract_port (matched_text match) of
        None \<Rightarrow> (None, a)
      | Some port \<Rightarrow>
          if port = 0 then (None, a)
          else if port \<in> detected_ports a then (None, a)
          else (Some port, a\<lparr>facade_trace := facade_trace a @ [Create_called port]\<rparr>))"

text \<open>
  From the suspension point on: when the call returned, mark the port and broadcast the
  event; when it raised, log only.
\<close>

definition localhost_detected_resume ::
  "create_outcome \<Rightarrow> int \<Rightarrow> AutoTunnelOrchestrator \<Rightarrow> AutoTunnelOrchestrator" where
  "localhost_detected_resume outcome port a =
     (case outcome of
        Create_returns tunnel \<Rightarrow>
          broadcast_tunnel_event tunnel
            (a\<lparr>facade_trace := facade_trace a @ [Create_returned port],
               detected_ports := insert port (detected_ports a)\<rparr>)
      | Create_raises \<Rightarrow> a\<lparr>facade_trace := facade_trace a @ [Create_raised port]\<rparr>)"







text \<open>The ports for which a call returned a tunnel, in the order of the trace.\<close>

fun created_ports :: "facade_event list \<Rightarrow> int list" where
  "created_ports [] = []"
| "created_ports (Create_returned p # rest) = p # created_ports rest"
| "created_ports (e # rest) = created_ports rest"


section \<open>Example states\<close>

text \<open>Concrete sessions, environments and managers at which the properties are evaluated.\<close>

text \<open>The probe \<open>os.kill(pid, 0)\<close> when no process has the pid, and when every pid is alive.\<close>

definition no_process :: "int \<Rightarrow> kill_result" where
  "no_process child = ProcessLookupError"

definition live_process :: "int \<Rightarrow> kill_result" where
  "live_process child = Kill_ok"

definition stored_session :: Session where
  "stored_session =
     \<lparr>id_S = ''s1'', pty_pid_S = Some 4242, working_dir_S = ''/work/s1'', status_S = RUNNING,
      created_at_S = 10, last_activity_S = 20, tunnels_S = []\<rparr>"

definition empty_queues :: queue_store where
  "empty_queues = (\<lambda>_. \<lparr>maxsize = 0, items = []\<rparr>)"

definition good_env :: create_env where
  "good_env =
     \<lparr>now_c = 100, now_later_c = 101, default_working_dir_c = ''/work'',
      claude_cli_c = ''claude'', unlink_ok_c = True, mkdir_ok_c = True,
      fork_result_c = Forked 5000 7 True, write_result_c = Write_ok\<rparr>"

definition new_session :: Session where
  "new_session =
     \<lparr>id_S = ''s2'', pty_pid_S = Some 5000, working_dir_S = ''/work/s2'', status_S = RUNNING,
      created_at_S = 100, last_activity_S = 101, tunnels_S = []\<rparr>"

text \<open>The manager after a first successful \<open>create_session\<close> on an empty disk.\<close>

definition active_manager :: SessionManager where
  "active_manager =
     snd (create_session good_env ''s2'' None False False
            (SessionManager_init no_process True None empty_queues 0))"

text \<open>The manager after a start-up that found the record of \<open>stored_session\<close> and its process alive.\<close>

definition restored_manager :: SessionManager where
  "restored_manager =
     SessionManager_init live_process True (Some (Session_json stored_session)) empty_queues 0"

definition send_env_ok :: send_env where
  "send_env_ok = \<lparr>now_s = 200, os_write_ok_s = True, write_result_s = Write_ok\<rparr>"

definition destroy_env_ok :: destroy_env where
  "destroy_env_ok = \<lparr>term_d = Kill_ok, wait_d = Wait_returns, unlink_ok_d = True\<rparr>"

definition fresh_manager :: SessionManager where
  "fresh_manager = SessionManager_init no_process True None empty_queues 0"

definition full_queue :: Queue where
  "full_queue = \<lparr>maxsize = 100, items = replicate 100 (Log_json 1 ''old'' ''stdout'')\<rparr>"

definition log_monitor_example :: LogMonitor where
  "log_monitor_example =
     \<lparr>is_monitoring = True, subscribers_LM = [1, 0],
      queues_LM = (\<lambda>_. \<lparr>maxsize = 100, items = []\<rparr>)(1 := full_queue),
      next_queue_LM = 2\<rparr>"

definition running_pty :: PTYSession where
  "running_pty =
     \<lparr>session_id_P = ''s2'', working_dir_P = ''/work/s2'', master_fd_P = Some 7,
      pid_P = Some 5000, running_P = True, reader_task_P = True\<rparr>"

definition named_example :: NamedTunnelManager where
  "named_example =
     \<lparr>tunnel_name_N = ''cloude'', tunnel_id_N = Some ''tid'', domain_N = ''example.com'',
      tunnels_N = Map.empty, tunnel_process_N = Some 900,
      config_file_N = Some
        \<lparr>tunnel_C = Some ''tid'', credentials_file_C = ''/home/u/.cloudflared/tid.json'',
         ingress_C = [\<lparr>hostname_R = Some ''example.com'', service_R = ''http://127.0.0.1:8000''\<rparr>,
                      \<lparr>hostname_R = None, service_R = ''http_status:404''\<rparr>]\<rparr>,
      signals_N = []\<rparr>"

definition add_env_ok :: add_env where
  "add_env_ok =
     \<lparr>cname_a = Cname_url ''https://3000.example.com'', config_write_a = Write_ok,
      now_a = 1700000000, now_later_a = 1700000000, write_result_a = Write_ok\<rparr>"

definition add_env_failing :: add_env where
  "add_env_failing =
     \<lparr>cname_a = Cname_raises, config_write_a = Open_fails,
      now_a = 1700000060, now_later_a = 1700000060, write_result_a = Open_fails\<rparr>"

definition tunnel_example :: Tunnel where
  "tunnel_example =
     \<lparr>id_T = ''tun_3000_1700000000'', session_id_T = ''s2'', port_T = 3000,
      public_url_T = ''https://3000.example.com'', created_at_T = 1700000000, status_T = ACTIVE,
      process_pid_T = Some 900\<rparr>"

definition localhost_match :: PatternMatch where
  "localhost_match =
     \<lparr>pattern_name = ''localhost_server'', matched_text = ''http://localhost:3000'',
      groups_of = [Some ''3000'', None, None, None], line_number = 0\<rparr>"

definition listening_match :: PatternMatch where
  "listening_match =
     \<lparr>pattern_name = ''listening_on_port'', matched_text = ''running at http://localhost:3000'',
      groups_of = [Some ''3000''], line_number = 0\<rparr>"

definition tunnel_3000 :: Tunnel where
  "tunnel_3000 =
     \<lparr>id_T = ''tun_3000_1'', session_id_T = ''s2'', port_T = 3000,
      public_url_T = ''https://3000.example.com'', created_at_T = 1, status_T = ACTIVE,
      process_pid_T = None\<rparr>"

section \<open>Verified properties\<close>

subsection \<open>Pattern detection: port extraction\<close>






lemma groupfree_lit [simp]: "groupfree (lit s)"
  by (induction s) (simp_all add: lit_def)

lemma groupfree_lit_i [simp]: "groupfree (lit_i s)"
  by (induction s) (simp_all add: lit_i_def)

lemma groupfree_http_prefix [simp]: "groupfree http_prefix"
  by (simp add: http_prefix_def)















subsection \<open>The example managers\<close>

lemma probes [simp]: "no_process child = ProcessLookupError" "live_process child = Kill_ok"
  by (simp_all add: no_process_def live_process_def)

lemma fresh_manager_eq:
  "fresh_manager =
     \<lparr>session = None, pty = None, log_buffer = [], command_count = 0, output_subscribers = [],
      metadata_file = None, storage_ops = [], os_calls = [], queues = empty_queues,
      next_queue = 0\<rparr>"
  by (simp add: fresh_manager_def SessionManager_init_def load_session_metadata_def)

lemma restored_manager_eq:
  "restored_manager =
     \<lparr>session = Some (stored_session\<lparr>status_S := RUNNING\<rparr>), pty = None, log_buffer = [],
      command_count = 0, output_subscribers = [],
      metadata_file = Some (Session_json stored_session), storage_ops = [],
      os_calls = [Os_kill 4242 SIG_0], queues = empty_queues, next_queue = 0\<rparr>"
  by (simp add: restored_manager_def SessionManager_init_def load_session_metadata_def
        stored_session_def)

lemma active_manager_eq:
  "active_manager =
     \<lparr>session = Some new_session,
      pty = Some \<lparr>session_id_P = ''s2'', working_dir_P = ''/work/s2'', master_fd_P = Some 7,
                  pid_P = Some 5000, running_P = True, reader_task_P = True\<rparr>,
      log_buffer = [], command_count = 0, output_subscribers = [],
      metadata_file = Some (Session_json new_session),
      storage_ops = [Write_file new_session],
      os_calls = [Pty_fork None, Set_nonblocking 7, Set_winsize 7 80 24, Start_reader_task],
      queues = empty_queues, next_queue = 0\<rparr>"
  by (simp add: active_manager_def SessionManager_init_def load_session_metadata_def
        create_session_def has_active_session_def good_env_def Let_def pty_start_def
        PTYSession_init_def save_session_metadata_def new_session_def)

subsection \<open>Session manager: start-up restore\<close>

lemma has_active_session_unlink [simp]:
  "has_active_session (unlink_metadata b m) = has_active_session m"
  by (simp add: has_active_session_def unlink_metadata_def split: option.splits)

lemma session_unlink [simp]: "session (unlink_metadata b m) = session m"
  "pty (unlink_metadata b m) = pty m"
  by (simp_all add: unlink_metadata_def)

text \<open>
  Claim C4. A record is on disk and its process id is a number other than zero. When the
  probe \<open>os.kill(pid, 0)\<close> reports that the process is not there (\<open>ProcessLookupError\<close>; the
  manager treats \<open>PermissionError\<close> the same way), start-up ends with no session, hence none
  active, and the file is gone when the unlink succeeds. When the probe returns, start-up
  ends with the recorded session, its status set to \<open>RUNNING\<close>, and the file untouched.
\<close>

theorem startup_restore:
  assumes "on_disk = Some (Session_json data)"
    and "pty_pid_S data = Some child" and "child \<noteq> 0"
  shows "(let m = SessionManager_init os_kill unlink_ok on_disk qs nq in
          (os_kill child = ProcessLookupError \<or> os_kill child = PermissionError \<longrightarrow>
             session m = None \<and> \<not> has_active_session m \<and>
             (unlink_ok \<longrightarrow> metadata_file m = None)) \<and>
          (os_kill child = Kill_ok \<longrightarrow>
             session m = Some (data\<lparr>status_S := RUNNING\<rparr>) \<and> metadata_file m = on_disk))"
  using assms
  by (auto simp: SessionManager_init_def load_session_metadata_def Let_def has_active_session_def
        unlink_metadata_def split: kill_result.splits)

theorem startup_restore_witness:
  "pty_pid_S stored_session = Some 4242 \<and>
   no_process 4242 = ProcessLookupError \<and>
   session (SessionManager_init no_process True (Some (Session_json stored_session))
              empty_queues 0) = None \<and>
   metadata_file (SessionManager_init no_process True (Some (Session_json stored_session))
              empty_queues 0) = None \<and>
   live_process 4242 = Kill_ok \<and>
   session restored_manager = Some (stored_session\<lparr>status_S := RUNNING\<rparr>)"
proof -
  have p: "pty_pid_S stored_session = Some 4242" "(4242::int) \<noteq> 0"
    by (simp_all add: stored_session_def)
  show ?thesis
    using p startup_restore[OF refl p, of no_process True empty_queues 0]
      startup_restore[OF refl p, of live_process True empty_queues 0]
    by (simp add: Let_def restored_manager_def)
qed

subsection \<open>Session manager: a single active session\<close>

lemma create_not_already_running:
  "\<not> has_active_session m \<Longrightarrow> fst (create_session env sid wd a c m) \<noteq> Inl already_running"
  by (auto simp: create_session_def Let_def already_running_def split: prod.splits sum.splits)

text \<open>
  Claim C1, amended. When \<open>has_active_session\<close> holds, that is a session with status
  \<open>RUNNING\<close> and an attached terminal process, \<open>create_session\<close> raises the error
  "A session is already running" and changes nothing in the manager or on disk. When it
  does not hold, \<open>create_session\<close> never raises that error.
\<close>

theorem create_session_single_active:
  "(has_active_session m \<longrightarrow>
      create_session env sid wd auto_start copy_t m = (Inl already_running, m)) \<and>
   (\<not> has_active_session m \<longrightarrow>
      fst (create_session env sid wd auto_start copy_t m) \<noteq> Inl already_running)"
  using create_not_already_running[of m env sid wd auto_start copy_t]
  by (simp add: create_session_def)

theorem create_session_running_without_pty_counterexample:
  "status_S (the (session restored_manager)) = RUNNING \<and>
   fst (create_session good_env ''s2'' None False False restored_manager) = Inr new_session"
  by (simp add: restored_manager_def SessionManager_init_def load_session_metadata_def
        stored_session_def create_session_def has_active_session_def good_env_def Let_def
        pty_start_def PTYSession_init_def save_session_metadata_def unlink_metadata_def
        new_session_def)

theorem create_session_single_active_witness:
  "has_active_session active_manager \<and>
   create_session good_env ''s3'' None False False active_manager =
     (Inl already_running, active_manager) \<and>
   \<not> has_active_session fresh_manager \<and>
   fst (create_session good_env ''s2'' None False False fresh_manager) \<noteq> Inl already_running"
proof -
  have a: "\<not> has_active_session fresh_manager"
    by (simp add: fresh_manager_eq has_active_session_def)
  have b: "has_active_session active_manager"
    by (simp add: active_manager_eq has_active_session_def new_session_def)
  show ?thesis
    using a b create_session_single_active[of active_manager good_env "''s3''" None False False]
      create_session_single_active[of fresh_manager good_env "''s2''" None False False]
    by simp
qed

subsection \<open>Session manager: a restored session without terminal process\<close>

text \<open>
  Claim C10. After a start-up that restores a record whose process is alive, the session
  has status \<open>RUNNING\<close>, no terminal process is attached and \<open>has_active_session\<close> is false.
  A \<open>create_session\<close> that follows does not raise the already-running error; it removes the
  persisted record when the unlink succeeds, and when the directory and the terminal process
  can be created it returns a new running session that takes the place of the restored one
  and, the write succeeding, is what the file then holds.
\<close>

theorem restored_session_is_replaced:
  assumes "on_disk = Some (Session_json data)"
    and "pty_pid_S data = Some child" and "child \<noteq> 0" and "os_kill child = Kill_ok"
  shows "(let m = SessionManager_init os_kill unlink_ok on_disk qs nq;
              (r, m') = create_session env sid wd auto_start copy_t m
          in session m = Some (data\<lparr>status_S := RUNNING\<rparr>) \<and> pty m = None \<and>
             \<not> has_active_session m \<and>
             r \<noteq> Inl already_running \<and>
             (unlink_ok_c env \<longrightarrow> (\<exists>rest. storage_ops m' = Unlink_file # rest)) \<and>
             (mkdir_ok_c env \<and> fork_result_c env = Forked new_pid fd True \<longrightarrow>
                (\<exists>s. r = Inr s \<and> session m' = Some s \<and> has_active_session m' \<and>
                     id_S s = sid \<and> pty_pid_S s = Some new_pid \<and> status_S s = RUNNING \<and>
                     (unlink_ok_c env \<and> write_result_c env = Write_ok \<longrightarrow>
                        storage_ops m' = [Unlink_file, Write_file s] \<and>
                        metadata_file m' = Some (Session_json s)))))"
proof -
  let ?m = "SessionManager_init os_kill unlink_ok on_disk qs nq"
  have m: "?m = \<lparr>session = Some (data\<lparr>status_S := RUNNING\<rparr>), pty = None, log_buffer = [],
        command_count = 0, output_subscribers = [], metadata_file = on_disk, storage_ops = [],
        os_calls = [Os_kill child SIG_0], queues = qs, next_queue = nq\<rparr>"
    using assms by (simp add: SessionManager_init_def load_session_metadata_def Let_def)
  have na: "\<not> has_active_session ?m" by (simp add: m has_active_session_def)
  have nr: "fst (create_session env sid wd auto_start copy_t ?m) \<noteq> Inl already_running"
    using create_not_already_running[OF na] .
  have ul: "unlink_ok_c env \<longrightarrow>
      (\<exists>rest. storage_ops (snd (create_session env sid wd auto_start copy_t ?m)) = Unlink_file # rest)"
    unfolding m using assms(1)
    by (auto simp: create_session_def has_active_session_def Let_def unlink_metadata_def
          pty_start_def PTYSession_init_def save_session_metadata_def
          split: prod.splits sum.splits fork_result.splits write_result.splits)
  have ok: "mkdir_ok_c env \<and> fork_result_c env = Forked new_pid fd True \<longrightarrow>
      (\<exists>s. fst (create_session env sid wd auto_start copy_t ?m) = Inr s \<and>
           session (snd (create_session env sid wd auto_start copy_t ?m)) = Some s \<and>
           has_active_session (snd (create_session env sid wd auto_start copy_t ?m)) \<and>
           id_S s = sid \<and> pty_pid_S s = Some new_pid \<and> status_S s = RUNNING \<and>
           (unlink_ok_c env \<and> write_result_c env = Write_ok \<longrightarrow>
              storage_ops (snd (create_session env sid wd auto_start copy_t ?m)) =
                [Unlink_file, Write_file s] \<and>
              metadata_file (snd (create_session env sid wd auto_start copy_t ?m)) =
                Some (Session_json s)))"
    unfolding m using assms(1)
    by (auto simp: create_session_def has_active_session_def Let_def unlink_metadata_def
          pty_start_def PTYSession_init_def save_session_metadata_def
          split: write_result.splits)
  have s0: "session ?m = Some (data\<lparr>status_S := RUNNING\<rparr>)" "pty ?m = None"
    by (simp_all add: m)
  obtain r m' where c: "create_session env sid wd auto_start copy_t ?m = (r, m')"
    by (cases "create_session env sid wd auto_start copy_t ?m")
  show ?thesis
    using s0 na nr ul ok unfolding Let_def c by simp
qed

theorem restored_session_is_replaced_witness:
  "pty_pid_S stored_session = Some 4242 \<and>
   live_process 4242 = Kill_ok \<and>
   session restored_manager = Some (stored_session\<lparr>status_S := RUNNING\<rparr>) \<and>
   pty restored_manager = None \<and>
   \<not> has_active_session restored_manager \<and>
   fst (create_session good_env ''s2'' None False False restored_manager) = Inr new_session \<and>
   storage_ops (snd (create_session good_env ''s2'' None False False restored_manager)) =
     [Unlink_file, Write_file new_session] \<and>
   metadata_file (snd (create_session good_env ''s2'' None False False restored_manager)) =
     Some (Session_json new_session)"
proof -
  have p: "pty_pid_S stored_session = Some 4242" "(4242::int) \<noteq> 0"
    by (simp_all add: stored_session_def)
  have e: "unlink_ok_c good_env" "mkdir_ok_c good_env" "fork_result_c good_env = Forked 5000 7 True"
    "write_result_c good_env = Write_ok"
    by (simp_all add: good_env_def)
  have r: "fst (create_session good_env ''s2'' None False False restored_manager) = Inr new_session"
    by (simp add: restored_manager_eq create_session_def has_active_session_def good_env_def
        Let_def pty_start_def PTYSession_init_def save_session_metadata_def unlink_metadata_def
        new_session_def)
  obtain r' m' where c: "create_session good_env ''s2'' None False False restored_manager = (r', m')"
    by (cases "create_session good_env ''s2'' None False False restored_manager")
  have k: "live_process 4242 = Kill_ok" by simp
  from restored_session_is_replaced[where os_kill = live_process and env = good_env
      and new_pid = 5000 and fd = 7 and unlink_ok = True and qs = empty_queues and nq = 0
      and sid = "''s2''" and wd = None and auto_start = False and copy_t = False,
      OF refl p k]
  show ?thesis using p e r c unfolding Let_def restored_manager_def[symmetric] by auto
qed

subsection \<open>Session manager: persistence\<close>

lemma create_session_persists:
  assumes "create_session env sid wd auto_start copy_t m = (Inr s, m')"
    and "write_result_c env = Write_ok"
  shows "session m' = Some s \<and> metadata_file m' = Some (Session_json s) \<and>
         (\<exists>before. storage_ops m' = before @ [Write_file s])"
  using assms
  by (auto simp: create_session_def Let_def save_session_metadata_def
        split: if_splits prod.splits sum.splits)

lemma send_command_persists:
  assumes "send_command env command m = (Inr b, m')"
    and "write_result_s env = Write_ok"
  shows "\<exists>s. session m' = Some s \<and> last_activity_S s = now_s env \<and>
             metadata_file m' = Some (Session_json s) \<and>
             storage_ops m' = storage_ops m @ [Write_file s]"
  using assms
  by (auto simp: send_command_def Let_def save_session_metadata_def
        split: option.splits if_splits prod.splits sum.splits)

lemma destroy_session_unlinks:
  assumes "destroy_session env m = (Some (Inr b), m')"
  shows "session m' = None \<and> metadata_file m' = None \<and>
         storage_ops m' = storage_ops m @ (if metadata_file m = None then [] else [Unlink_file])"
  using assms
  by (auto simp: destroy_session_def Let_def unlink_metadata_def
        split: option.splits if_splits prod.splits sum.splits)

lemma resize_terminal_no_storage:
  "session (resize_terminal ioctl_ok winch cols rows m) = session m \<and>
   metadata_file (resize_terminal ioctl_ok winch cols rows m) = metadata_file m \<and>
   storage_ops (resize_terminal ioctl_ok winch cols rows m) = storage_ops m"
  by (simp add: resize_terminal_def split: option.splits)

text \<open>
  Claim C6, amended. A \<open>create_session\<close> and a \<open>send_command\<close> that succeed end with a write
  of the whole session to the metadata file, provided the write itself succeeds: the file
  then holds exactly the session in memory. A \<open>destroy_session\<close> that succeeds writes
  nothing: it removes the file and leaves no session. \<open>resize_terminal\<close> changes neither the
  session nor the file.
\<close>

theorem persistence_after_mutation:
  "(create_session cenv sid wd auto_start copy_t m = (Inr s, m1) \<and>
      write_result_c cenv = Write_ok \<longrightarrow>
      session m1 = Some s \<and> metadata_file m1 = Some (Session_json s) \<and>
      (\<exists>before. storage_ops m1 = before @ [Write_file s])) \<and>
   (send_command senv command m = (Inr b, m2) \<and> write_result_s senv = Write_ok \<longrightarrow>
      (\<exists>s'. session m2 = Some s' \<and> last_activity_S s' = now_s senv \<and>
            metadata_file m2 = Some (Session_json s') \<and>
            storage_ops m2 = storage_ops m @ [Write_file s'])) \<and>
   (destroy_session denv m = (Some (Inr b'), m3) \<longrightarrow>
      session m3 = None \<and> metadata_file m3 = None \<and>
      storage_ops m3 = storage_ops m @ (if metadata_file m = None then [] else [Unlink_file])) \<and>
   session (resize_terminal ioctl_ok winch cols rows m) = session m \<and>
   metadata_file (resize_terminal ioctl_ok winch cols rows m) = metadata_file m \<and>
   storage_ops (resize_terminal ioctl_ok winch cols rows m) = storage_ops m"
  using create_session_persists[of cenv sid wd auto_start copy_t m s m1]
    send_command_persists[of senv command m b m2]
    destroy_session_unlinks[of denv m b' m3]
    resize_terminal_no_storage[of ioctl_ok winch cols rows m]
  by blast

theorem persistence_after_mutation_counterexample:
  "destroy_session destroy_env_ok active_manager =
     (Some (Inr True),
      active_manager\<lparr>session := None, pty := None, metadata_file := None,
        storage_ops := [Write_file new_session, Unlink_file],
        os_calls := os_calls active_manager @
          [Cancel_reader_task, Os_kill 5000 SIGTERM, Os_waitpid 5000, Os_close 7]\<rparr>) \<and>
   resize_terminal True Kill_ok 100 40 active_manager =
     active_manager\<lparr>os_calls := os_calls active_manager @
          [Set_winsize 7 100 40, Os_kill 5000 SIGWINCH]\<rparr> \<and>
   send_input send_env_ok ''ls'' active_manager =
     (Inr True,
      active_manager\<lparr>session := Some (new_session\<lparr>last_activity_S := 200\<rparr>),
        os_calls := os_calls active_manager @ [Os_write 7 ''ls'']\<rparr>) \<and>
   metadata_file active_manager = Some (Session_json new_session) \<and>
   storage_ops active_manager = [Write_file new_session] \<and>
   new_session\<lparr>last_activity_S := 200\<rparr> \<noteq> new_session"
  by (simp add: active_manager_eq destroy_session_def destroy_env_ok_def pty_stop_def
        close_master_fd_def unlink_metadata_def Let_def resize_terminal_def pty_resize_def
        send_input_def send_env_ok_def pty_write_def new_session_def)

theorem persistence_after_mutation_witness:
  "create_session good_env ''s2'' None False False fresh_manager = (Inr new_session, active_manager) \<and>
   write_result_c good_env = Write_ok \<and>
   metadata_file active_manager = Some (Session_json new_session) \<and>
   fst (send_command send_env_ok ''ls'' active_manager) = Inr True \<and>
   write_result_s send_env_ok = Write_ok \<and>
   metadata_file (snd (send_command send_env_ok ''ls'' active_manager)) =
     Some (Session_json (new_session\<lparr>last_activity_S := 200\<rparr>)) \<and>
   session (snd (send_command send_env_ok ''ls'' active_manager)) =
     Some (new_session\<lparr>last_activity_S := 200\<rparr>) \<and>
   fst (destroy_session destroy_env_ok active_manager) = Some (Inr True) \<and>
   metadata_file (snd (destroy_session destroy_env_ok active_manager)) = None \<and>
   storage_ops (snd (destroy_session destroy_env_ok active_manager)) =
     [Write_file new_session, Unlink_file]"
proof -
  have c: "create_session good_env ''s2'' None False False fresh_manager =
             (Inr new_session, active_manager)"
    unfolding active_manager_eq
    by (simp add: fresh_manager_def SessionManager_init_def load_session_metadata_def
        create_session_def has_active_session_def good_env_def Let_def pty_start_def
        PTYSession_init_def save_session_metadata_def new_session_def)
  have w: "write_result_c good_env = Write_ok" "write_result_s send_env_ok = Write_ok"
    "now_s send_env_ok = 200"
    by (simp_all add: good_env_def send_env_ok_def)
  have sc: "fst (send_command send_env_ok ''ls'' active_manager) = Inr True"
    "session (snd (send_command send_env_ok ''ls'' active_manager)) =
       Some (new_session\<lparr>last_activity_S := 200\<rparr>)"
    by (simp_all add: active_manager_eq send_command_def send_env_ok_def pty_send_command_def
        pty_write_def Let_def save_session_metadata_def new_session_def)
  have ds: "fst (destroy_session destroy_env_ok active_manager) = Some (Inr True)"
    by (simp add: active_manager_eq destroy_session_def destroy_env_ok_def pty_stop_def
        close_master_fd_def unlink_metadata_def Let_def)
  have sa: "storage_ops active_manager = [Write_file new_session]"
    "metadata_file active_manager = Some (Session_json new_session)"
    by (simp_all add: active_manager_eq)
  obtain m2 where m2: "send_command send_env_ok ''ls'' active_manager = (Inr True, m2)"
    using sc(1) by (cases "send_command send_env_ok ''ls'' active_manager") auto
  obtain m3 where m3: "destroy_session destroy_env_ok active_manager = (Some (Inr True), m3)"
    using ds by (cases "destroy_session destroy_env_ok active_manager") auto
  from persistence_after_mutation[of good_env "''s2''" None False False fresh_manager new_session
      active_manager]
  have p1: "metadata_file active_manager = Some (Session_json new_session)"
    using c w by blast
  from persistence_after_mutation[where m = active_manager and senv = send_env_ok
      and command = "''ls''" and b = True and ?m2.0 = m2 and denv = destroy_env_ok
      and b' = True and ?m3.0 = m3]
  have p2: "\<exists>s'. session m2 = Some s' \<and> metadata_file m2 = Some (Session_json s')"
    and p3: "metadata_file m3 = None \<and>
       storage_ops m3 = storage_ops active_manager @
         (if metadata_file active_manager = None then [] else [Unlink_file])"
    using m2 m3 w by blast+
  show ?thesis using c w p1 p2 p3 sc ds m2 m3 sa by auto
qed

subsection \<open>Output subscribers and log subscribers: broadcast\<close>

lemma put_all_unbounded:
  "distinct l \<Longrightarrow> \<forall>q\<in>set l. maxsize (st q) \<le> 0 \<Longrightarrow>
   put_all x l st = Some (\<lambda>q. if q \<in> set l then delivered x (st q) else st q)"
proof (induction l arbitrary: st)
  case Nil
  then show ?case by simp
next
  case (Cons a l)
  have p: "put (st a) x = Some (delivered x (st a))"
    using Cons.prems(2) by (simp add: put_def full_def delivered_def)
  let ?st = "st(a := delivered x (st a))"
  have "put_all x l ?st = Some (\<lambda>q. if q \<in> set l then delivered x (?st q) else ?st q)"
  proof (rule Cons.IH)
    show "distinct l" using Cons.prems(1) by simp
    show "\<forall>q\<in>set l. maxsize (?st q) \<le> 0" using Cons.prems by (auto simp: delivered_def)
  qed
  moreover have "(\<lambda>q. if q \<in> set l then delivered x (?st q) else ?st q) =
                 (\<lambda>q. if q \<in> set (a # l) then delivered x (st q) else st q)"
    using Cons.prems(1) by auto
  ultimately show ?case using p by simp
qed

lemma put_nowait_all_distinct:
  "distinct l \<Longrightarrow>
   put_nowait_all x l st =
     (\<lambda>q. if q \<in> set l \<and> \<not> full (st q) then delivered x (st q) else st q)"
proof (induction l arbitrary: st)
  case Nil
  then show ?case by simp
next
  case (Cons a l)
  show ?case
  proof (cases "full (st a)")
    case True
    then have "put_nowait_all x (a # l) st = put_nowait_all x l st"
      by (simp add: put_nowait_def)
    also have "\<dots> = (\<lambda>q. if q \<in> set l \<and> \<not> full (st q) then delivered x (st q) else st q)"
      using Cons.IH[of st] Cons.prems by simp
    also have "\<dots> = (\<lambda>q. if q \<in> set (a # l) \<and> \<not> full (st q) then delivered x (st q) else st q)"
      using True by auto
    finally show ?thesis .
  next
    case False
    let ?st = "st(a := delivered x (st a))"
    from False have "put_nowait_all x (a # l) st = put_nowait_all x l ?st"
      by (simp add: put_nowait_def delivered_def)
    also have "\<dots> = (\<lambda>q. if q \<in> set l \<and> \<not> full (?st q) then delivered x (?st q) else ?st q)"
    proof (rule Cons.IH)
      show "distinct l" using Cons.prems by simp
    qed
    also have "\<dots> = (\<lambda>q. if q \<in> set (a # l) \<and> \<not> full (st q) then delivered x (st q) else st q)"
      using False Cons.prems by auto
    finally show ?thesis .
  qed
qed

lemma hub_inv_step:
  assumes "hub_inv m"
  shows "\<exists>m'. hub_step x m = Some m' \<and> hub_inv m'"
proof (cases x)
  case Subscribe
  then show ?thesis using assms
    by (auto simp: hub_inv_def subscribe_output_def Let_def less_Suc_eq)
next
  case (Unsubscribe q)
  then show ?thesis using assms
    by (auto simp: hub_inv_def unsubscribe_output_def)
next
  case (Broadcast data)
  from assms have d: "distinct (output_subscribers m)"
    and u: "\<forall>q\<in>set (output_subscribers m). maxsize (queues m q) \<le> 0"
    by (auto simp: hub_inv_def)
  from put_all_unbounded[OF d u] Broadcast assms show ?thesis
    by (auto simp: handle_pty_output_def hub_inv_def delivered_def)
qed

lemma hub_inv_run:
  "hub_inv m \<Longrightarrow> \<exists>m'. hub_run xs m = Some m' \<and> hub_inv m'"
proof (induction xs arbitrary: m)
  case Nil
  then show ?case by simp
next
  case (Cons x xs)
  from hub_inv_step[OF Cons.prems, of x] obtain m1 where
    "hub_step x m = Some m1" "hub_inv m1" by blast
  with Cons.IH[of m1] show ?case by auto
qed

text \<open>
  Claim C3. Starting from a manager without subscribers, after any sequence of subscribe,
  unsubscribe and broadcast operations, \<open>_handle_pty_output\<close> returns (its queues are
  unbounded, so \<open>put\<close> never waits), appends the encoded chunk to every queue subscribed at
  that moment and leaves every other queue and the subscriber list as they were. The log
  monitor's \<open>_broadcast_log\<close>, whose queues hold at most 100 messages, appends the message to
  every subscribed queue that is not full, leaves a full subscribed queue as it was (the
  message is dropped for that subscriber only) and touches no other queue.
\<close>

theorem broadcast_delivers_to_subscribers:
  assumes "output_subscribers m0 = []"
  shows "(\<exists>m m'. hub_run ops m0 = Some m \<and>
            handle_pty_output data m = Some m' \<and>
            output_subscribers m' = output_subscribers m \<and>
            (\<forall>q. queues m' q =
                    (if q \<in> set (output_subscribers m)
                     then delivered (Pty_base64 data) (queues m q) else queues m q))) \<and>
         (distinct (subscribers_LM lm) \<longrightarrow>
            subscribers_LM (broadcast_log now line log_type lm) = subscribers_LM lm \<and>
            (\<forall>q. queues_LM (broadcast_log now line log_type lm) q =
                    (if q \<in> set (subscribers_LM lm) \<and> \<not> full (queues_LM lm q)
                     then delivered (Log_json now line log_type) (queues_LM lm q)
                     else queues_LM lm q)))"
proof -
  have "hub_inv m0" using assms by (simp add: hub_inv_def)
  from hub_inv_run[OF this, of ops] obtain m where m: "hub_run ops m0 = Some m" "hub_inv m"
    by blast
  from m(2) have d: "distinct (output_subscribers m)"
    and u: "\<forall>q\<in>set (output_subscribers m). maxsize (queues m q) \<le> 0"
    by (auto simp: hub_inv_def)
  have a: "\<exists>m'. handle_pty_output data m = Some m' \<and>
            output_subscribers m' = output_subscribers m \<and>
            (\<forall>q. queues m' q =
                    (if q \<in> set (output_subscribers m)
                     then delivered (Pty_base64 data) (queues m q) else queues m q))"
    using put_all_unbounded[OF d u, of "Pty_base64 data"]
    by (simp add: handle_pty_output_def)
  have b: "distinct (subscribers_LM lm) \<longrightarrow>
            subscribers_LM (broadcast_log now line log_type lm) = subscribers_LM lm \<and>
            (\<forall>q. queues_LM (broadcast_log now line log_type lm) q =
                    (if q \<in> set (subscribers_LM lm) \<and> \<not> full (queues_LM lm q)
                     then delivered (Log_json now line log_type) (queues_LM lm q)
                     else queues_LM lm q))"
    using put_nowait_all_distinct[of "subscribers_LM lm" "Log_json now line log_type" "queues_LM lm"]
    by (auto simp: broadcast_log_def)
  from m(1) a b show ?thesis by blast
qed

theorem broadcast_delivers_to_subscribers_witness:
  "output_subscribers fresh_manager = [] \<and>
   (\<exists>m m'. hub_run [Subscribe, Subscribe, Unsubscribe 0, Subscribe, Broadcast ''a''] fresh_manager
              = Some m \<and>
            handle_pty_output ''b'' m = Some m' \<and>
            output_subscribers m = [1, 2] \<and>
            items (queues m' 0) = [] \<and>
            items (queues m' 1) = [Pty_base64 ''a'', Pty_base64 ''b''] \<and>
            items (queues m' 2) = [Pty_base64 ''a'', Pty_base64 ''b'']) \<and>
   distinct (subscribers_LM log_monitor_example) \<and>
   full (queues_LM log_monitor_example 1) \<and>
   queues_LM (broadcast_log 5 ''new'' ''stdout'' log_monitor_example) 1 = full_queue \<and>
   items (queues_LM (broadcast_log 5 ''new'' ''stdout'' log_monitor_example) 0) =
     [Log_json 5 ''new'' ''stdout'']"
proof -
  let ?ops = "[Subscribe, Subscribe, Unsubscribe 0, Subscribe, Broadcast ''a'']"
  have e: "output_subscribers fresh_manager = []"
    by (simp add: fresh_manager_def SessionManager_init_def load_session_metadata_def)
  have d: "distinct (subscribers_LM log_monitor_example)"
    by (simp add: log_monitor_example_def)
  have f: "full (queues_LM log_monitor_example 1)" "\<not> full (queues_LM log_monitor_example 0)"
    by (simp_all add: log_monitor_example_def full_queue_def full_def)
  have q: "queues_LM log_monitor_example 1 = full_queue"
    "queues_LM log_monitor_example 0 = \<lparr>maxsize = 100, items = []\<rparr>"
    "subscribers_LM log_monitor_example = [1, 0]"
    by (simp_all add: log_monitor_example_def)
  from broadcast_delivers_to_subscribers[OF e, of ?ops "''b''" log_monitor_example 5 "''new''"
      "''stdout''"]
  obtain m m' where r: "hub_run ?ops fresh_manager = Some m"
    "handle_pty_output ''b'' m = Some m'"
    "\<forall>q. queues m' q = (if q \<in> set (output_subscribers m)
                     then delivered (Pty_base64 ''b'') (queues m q) else queues m q)"
    and l: "\<forall>q. queues_LM (broadcast_log 5 ''new'' ''stdout'' log_monitor_example) q =
                    (if q \<in> set (subscribers_LM log_monitor_example) \<and>
                        \<not> full (queues_LM log_monitor_example q)
                     then delivered (Log_json 5 ''new'' ''stdout'') (queues_LM log_monitor_example q)
                     else queues_LM log_monitor_example q)"
    using d by blast
  have "\<exists>n. hub_run ?ops fresh_manager = Some n \<and> output_subscribers n = [1, 2] \<and>
          queues n 0 = \<lparr>maxsize = 0, items = []\<rparr> \<and>
          queues n 1 = \<lparr>maxsize = 0, items = [Pty_base64 ''a'']\<rparr> \<and>
          queues n 2 = \<lparr>maxsize = 0, items = [Pty_base64 ''a'']\<rparr>"
    by (simp add: fresh_manager_def SessionManager_init_def load_session_metadata_def
        subscribe_output_def unsubscribe_output_def handle_pty_output_def put_def full_def
        Let_def empty_queues_def)
  with r(1) have m: "output_subscribers m = [1, 2]"
    "queues m 0 = \<lparr>maxsize = 0, items = []\<rparr>"
    "queues m 1 = \<lparr>maxsize = 0, items = [Pty_base64 ''a'']\<rparr>"
    "queues m 2 = \<lparr>maxsize = 0, items = [Pty_base64 ''a'']\<rparr>"
    by auto
  have "items (queues m' 0) = [] \<and>
        items (queues m' 1) = [Pty_base64 ''a'', Pty_base64 ''b''] \<and>
        items (queues m' 2) = [Pty_base64 ''a'', Pty_base64 ''b'']"
    using r(3) m by (simp add: delivered_def)
  moreover have "queues_LM (broadcast_log 5 ''new'' ''stdout'' log_monitor_example) 1 = full_queue"
    using l f q by simp
  moreover have "items (queues_LM (broadcast_log 5 ''new'' ''stdout'' log_monitor_example) 0) =
     [Log_json 5 ''new'' ''stdout'']"
    using l f q by (simp add: delivered_def)
  ultimately show ?thesis using e d f r m by blast
qed

subsection \<open>Terminal process: stop\<close>

lemma pty_stop_not_running:
  "\<not> running_P p \<Longrightarrow> pty_stop kr wr p = (Some (Inr ()), [], p)"
  by (simp add: pty_stop_def)

lemma pty_stop_clears_running:
  "\<not> running_P (snd (snd (pty_stop kr wr p)))"
  by (simp add: pty_stop_def Let_def close_master_fd_def split_beta
        split: option.splits kill_result.splits wait_result.splits)

lemma pty_stop_idempotent:
  assumes "pty_stop kr wr p = (r, calls, p')"
  shows "pty_stop kr' wr' p' = (Some (Inr ()), [], p')"
proof -
  have "\<not> running_P p'" using pty_stop_clears_running[of kr wr p] assms by simp
  then show ?thesis by (rule pty_stop_not_running)
qed

lemma pty_stop_child_already_dead:
  "running_P p \<Longrightarrow> pid_P p = Some child \<Longrightarrow> child \<noteq> 0 \<Longrightarrow> master_fd_P p = Some fd \<Longrightarrow>
   pty_stop ProcessLookupError wr p =
     (Some (Inr ()),
      (if reader_task_P p then [Cancel_reader_task] else []) @ [Os_kill child SIGTERM, Os_close fd],
      p\<lparr>running_P := False, master_fd_P := None\<rparr>)"
  by (simp add: pty_stop_def Let_def close_master_fd_def)

lemma pty_stop_never_kills:
  "Os_kill child SIGKILL \<notin> set (fst (snd (pty_stop kr wr p)))"
  by (simp add: pty_stop_def Let_def close_master_fd_def split_beta
        split: option.splits kill_result.splits wait_result.splits)

text \<open>
  Claim C5, evaluated where the code departs from it. The terminal is running and its child
  does not exit on \<open>SIGTERM\<close>: \<open>stop\<close> cancels the reader, sends \<open>SIGTERM\<close> and waits in
  \<open>os.waitpid(pid, 0)\<close> without a time limit, so it never returns; no \<open>SIGKILL\<close> is sent and the
  master descriptor stays open.
\<close>

theorem pty_stop_waits_without_bound:
  "pty_stop Kill_ok Wait_never_returns running_pty =
     (None, [Cancel_reader_task, Os_kill 5000 SIGTERM, Os_waitpid 5000],
      running_pty\<lparr>running_P := False\<rparr>) \<and>
   master_fd_P (snd (snd (pty_stop Kill_ok Wait_never_returns running_pty))) = Some 7 \<and>
   Os_kill 5000 SIGKILL \<notin> set (fst (snd (pty_stop Kill_ok Wait_never_returns running_pty)))"
  by (simp add: pty_stop_def running_pty_def Let_def close_master_fd_def)

subsection \<open>Hybrid tunnel manager: fallback to the quick strategy is permanent\<close>



lemma fallback:
  assumes "is_named h" "init_failed outcome"
  shows "fst (hybrid_initialize outcome h) = False"
    "\<not> is_named (snd (hybrid_initialize outcome h))"
    "tunnel_manager (snd (hybrid_initialize outcome h)) = QuickTunnelManager"
  using assms
  by (auto simp: hybrid_initialize_def init_failed_def Let_def delegate_def split: init_outcome.splits)



subsection \<open>Named tunnel manager: adding a port mapping twice\<close>

lemma has_active_session_save [simp]:
  "has_active_session (save_session_metadata wr m) = has_active_session m"
  by (simp add: has_active_session_def save_session_metadata_def
        split: option.splits write_result.splits)

lemma session_save [simp]: "session (save_session_metadata wr m) = session m"
  by (simp add: save_session_metadata_def split: option.splits write_result.splits)

lemma add_ingress_rule_ok:
  assumes "add_ingress_rule cw port n = (Inr u, n')"
  shows "\<exists>config. config_file_N n = Some config \<and>
           config_file_N n' = Some (config\<lparr>ingress_C :=
             insert_before_last
               \<lparr>hostname_R = Some (str_int port @ ''.'' @ domain_N n),
                service_R = ''http://127.0.0.1:'' @ str_int port\<rparr>
               (ingress_C config)\<rparr>)"
  using assms
  by (auto simp: add_ingress_rule_def Let_def split: option.splits write_result.splits if_splits)

lemma add_port_mapping_result:
  assumes "add_port_mapping env port (n, m) = (Inr t, n1, m1)"
  shows "has_active_session m1 \<and> tunnels_N n1 port = Some t \<and>
         (tunnels_N n port = None \<longrightarrow>
            (\<exists>config. config_file_N n = Some config \<and>
               config_file_N n1 = Some (config\<lparr>ingress_C :=
                 insert_before_last
                   \<lparr>hostname_R = Some (str_int port @ ''.'' @ domain_N n),
                    service_R = ''http://127.0.0.1:'' @ str_int port\<rparr>
                   (ingress_C config)\<rparr>)))"
proof -
  have act: "has_active_session m"
    using assms by (cases "has_active_session m") (simp_all add: add_port_mapping_def)
  then obtain s where s: "session m = Some s"
    by (auto simp: has_active_session_def split: option.splits)
  show ?thesis
  proof (cases "tunnels_N n port")
    case (Some existing)
    with assms act s show ?thesis by (simp add: add_port_mapping_def)
  next
    case None
    obtain r n' where ir: "add_ingress_rule (config_write_a env) port n = (r, n')"
      by (cases "add_ingress_rule (config_write_a env) port n")
    have nr: "cname_a env \<noteq> Cname_raises"
      using assms act s None by (auto simp: add_port_mapping_def)
    have "\<exists>u. r = Inr u"
      using assms act s None nr ir
      by (cases r; cases "cname_a env") (simp_all add: add_port_mapping_def Let_def)
    then obtain u where r: "r = Inr u" by blast
    from assms act s None nr ir r
    have e: "n1 = n'\<lparr>tunnels_N := (tunnels_N n')(port \<mapsto> t)\<rparr> \<and>
          m1 = save_session_metadata (write_result_a env)
                 (m\<lparr>session := Some (s\<lparr>tunnels_S := tunnels_S s @ [t]\<rparr>)\<rparr>)"
      by (cases "cname_a env") (auto simp: add_port_mapping_def Let_def)
    have "has_active_session (m\<lparr>session := Some (s\<lparr>tunnels_S := tunnels_S s @ [t]\<rparr>)\<rparr>)"
      using act s by (simp add: has_active_session_def)
    moreover from add_ingress_rule_ok[OF ir[unfolded r]] e
    have "\<exists>config. config_file_N n = Some config \<and>
               config_file_N n1 = Some (config\<lparr>ingress_C :=
                 insert_before_last
                   \<lparr>hostname_R = Some (str_int port @ ''.'' @ domain_N n),
                    service_R = ''http://127.0.0.1:'' @ str_int port\<rparr>
                   (ingress_C config)\<rparr>)"
      by auto
    ultimately show ?thesis using e by simp
  qed
qed

text \<open>
  Claim C8. When a call of \<open>add_port_mapping\<close> for a port has returned a tunnel, a second
  call for the same port, whatever the environment then answers, returns that same tunnel
  and leaves the manager, its ingress document and the session manager exactly as they
  were; when the first call created the mapping, the document holds the original rules with
  the one new rule inserted before the last, once.
\<close>

theorem add_port_mapping_idempotent:
  assumes "add_port_mapping env port (n, m) = (Inr t, n1, m1)"
  shows "add_port_mapping env' port (n1, m1) = (Inr t, n1, m1) \<and>
         (tunnels_N n port = None \<longrightarrow>
            (\<exists>config. config_file_N n = Some config \<and>
               config_file_N (fst (snd (add_port_mapping env' port (n1, m1)))) =
                 Some (config\<lparr>ingress_C :=
                   insert_before_last
                     \<lparr>hostname_R = Some (str_int port @ ''.'' @ domain_N n),
                      service_R = ''http://127.0.0.1:'' @ str_int port\<rparr>
                     (ingress_C config)\<rparr>)))"
proof -
  from add_port_mapping_result[OF assms] have a: "has_active_session m1"
    and b: "tunnels_N n1 port = Some t"
    and c: "tunnels_N n port = None \<longrightarrow>
            (\<exists>config. config_file_N n = Some config \<and>
               config_file_N n1 = Some (config\<lparr>ingress_C :=
                 insert_before_last
                   \<lparr>hostname_R = Some (str_int port @ ''.'' @ domain_N n),
                    service_R = ''http://127.0.0.1:'' @ str_int port\<rparr>
                   (ingress_C config)\<rparr>))"
    by simp_all
  from a obtain s where "session m1 = Some s"
    by (auto simp: has_active_session_def split: option.splits)
  with a b have "add_port_mapping env' port (n1, m1) = (Inr t, n1, m1)"
    by (simp add: add_port_mapping_def)
  with c show ?thesis by simp
qed

lemma str_examples: "str_int 3000 = ''3000''" "str_nat 1700000000 = ''1700000000''"
  by (simp_all add: str_int_def str_nat.simps digit_char_def)

lemma first_add_port_mapping:
  "fst (add_port_mapping add_env_ok 3000 (named_example, active_manager)) = Inr tunnel_example"
  unfolding active_manager_eq
  by (simp add: add_port_mapping_def add_env_ok_def named_example_def
        Let_def add_ingress_rule_def truthy_def str_examples tunnel_example_def
        has_active_session_def new_session_def)

theorem add_port_mapping_idempotent_witness:
  "fst (add_port_mapping add_env_ok 3000 (named_example, active_manager)) = Inr tunnel_example \<and>
   add_port_mapping add_env_failing 3000
     (snd (add_port_mapping add_env_ok 3000 (named_example, active_manager))) =
     (Inr tunnel_example, snd (add_port_mapping add_env_ok 3000 (named_example, active_manager))) \<and>
   tunnels_N named_example 3000 = None \<and>
   map hostname_R (ingress_C (the (config_file_N
     (fst (snd (add_port_mapping add_env_failing 3000
        (snd (add_port_mapping add_env_ok 3000 (named_example, active_manager))))))))) =
     [Some ''example.com'', Some ''3000.example.com'', None]"
proof -
  obtain n1 m1 where f: "add_port_mapping add_env_ok 3000 (named_example, active_manager) =
      (Inr tunnel_example, n1, m1)"
    using first_add_port_mapping
    by (cases "add_port_mapping add_env_ok 3000 (named_example, active_manager)") auto
  have e: "tunnels_N named_example 3000 = None" by (simp add: named_example_def)
  have c: "config_file_N named_example = Some
        \<lparr>tunnel_C = Some ''tid'', credentials_file_C = ''/home/u/.cloudflared/tid.json'',
         ingress_C = [\<lparr>hostname_R = Some ''example.com'', service_R = ''http://127.0.0.1:8000''\<rparr>,
                      \<lparr>hostname_R = None, service_R = ''http_status:404''\<rparr>]\<rparr>"
    "domain_N named_example = ''example.com''"
    by (simp_all add: named_example_def)
  let ?second = "add_port_mapping add_env_failing 3000 (n1, m1)"
  from add_port_mapping_idempotent[OF f, of add_env_failing] e
  have A: "?second = (Inr tunnel_example, n1, m1)"
    and B: "\<exists>config. config_file_N named_example = Some config \<and>
               config_file_N (fst (snd ?second)) =
                 Some (config\<lparr>ingress_C :=
                   insert_before_last
                     \<lparr>hostname_R = Some (str_int 3000 @ ''.'' @ domain_N named_example),
                      service_R = ''http://127.0.0.1:'' @ str_int 3000\<rparr>
                     (ingress_C config)\<rparr>)"
    by blast+
  from B obtain config where
    g: "config_file_N named_example = Some config"
       "config_file_N (fst (snd ?second)) =
                 Some (config\<lparr>ingress_C :=
                   insert_before_last
                     \<lparr>hostname_R = Some (str_int 3000 @ ''.'' @ domain_N named_example),
                      service_R = ''http://127.0.0.1:'' @ str_int 3000\<rparr>
                     (ingress_C config)\<rparr>)"
    by blast
  from g(1) c(1) have i: "ingress_C config =
      [\<lparr>hostname_R = Some ''example.com'', service_R = ''http://127.0.0.1:8000''\<rparr>,
       \<lparr>hostname_R = None, service_R = ''http_status:404''\<rparr>]"
    by auto
  have "map hostname_R (ingress_C (the (config_file_N (fst (snd ?second))))) =
     [Some ''example.com'', Some ''3000.example.com'', None]"
    unfolding g(2) by (simp add: i insert_before_last_def str_examples c(2))
  with A e f show ?thesis by simp
qed

subsection \<open>Auto-tunnel orchestrator: one tunnel per port\<close>


lemma created_ports_append [simp]:
  "created_ports (xs @ ys) = created_ports xs @ created_ports ys"
  by (induction xs rule: created_ports.induct) auto


lemma broadcast_keeps [simp]:
  "facade_trace (broadcast_tunnel_event t a) = facade_trace a"
  "detected_ports (broadcast_tunnel_event t a) = detected_ports a"
  by (simp_all add: broadcast_tunnel_event_def)






lemma extract_port_matches:
  "extract_port (matched_text localhost_match) = Some 3000"
  "extract_port (matched_text listening_match) = Some 3000"
  unfolding localhost_match_def listening_match_def PatternMatch.simps by code_simp+




text \<open>
  Two handler tasks for the same port that overlap: the second starts while the first is
  suspended in \<open>create_tunnel\<close>, finds the port not yet detected and calls the facade too.
\<close>

lemma overlapping_handlers_call_twice:
  "(let (p1, a1) = localhost_detected_begin localhost_match (AutoTunnelOrchestrator_init empty_queues 0);
        (p2, a2) = localhost_detected_begin listening_match a1;
        a3 = localhost_detected_resume (Create_returns tunnel_3000) 3000 a2;
        a4 = localhost_detected_resume (Create_returns tunnel_3000) 3000 a3
    in p1 = Some 3000 \<and> p2 = Some 3000 \<and>
       facade_trace a4 =
         [Create_called 3000, Create_called 3000, Create_returned 3000, Create_returned 3000])"
  by (simp add: localhost_detected_begin_def localhost_detected_resume_def extract_port_matches
        AutoTunnelOrchestrator_init_def broadcast_tunnel_event_def)

end
